theory Spec2Isabelle
  imports Complex_Main "HOL-Library.Word" "HOL-Library.Log_Nat"
begin

section \<open>HTTP requests, responses and the downstream connection\<close>

text \<open>
  Go's \<open>error\<close> values are carried as their message; \<open>nil\<close> is \<open>None\<close> (or the
  \<open>Inr\<close> side of a result).
\<close>

type_synonym error = string

text \<open>
  \<open>http.Header\<close> is \<open>map[string][]string\<close>. Keys are the canonical header names; the
  header names used by the filters are already canonical.
\<close>

type_synonym header = "string \<rightharpoonup> string list"

definition Header_Get :: "header \<Rightarrow> string \<Rightarrow> string" where
  \<comment> \<open>\<open>Header.Get\<close>: the first value of the key, or the empty string.\<close>
  "Header_Get h key = (case h key of None \<Rightarrow> [] | Some [] \<Rightarrow> [] | Some (v # vs) \<Rightarrow> v)"

definition Header_Del :: "header \<Rightarrow> string \<Rightarrow> header" where
  \<comment> \<open>\<open>Header.Del\<close>: the key and all its values are removed.\<close>
  "Header_Del h key = h(key := None)"

record request =
  Method :: string
  Host :: string
  URL_Path :: string
  Header :: header
  Body :: "string option"

record response =
  StatusCode :: int
  ProtoMajor :: int
  ProtoMinor :: int
  resp_Header :: header
  Close :: bool

definition MethodConnect :: string where "MethodConnect = ''CONNECT''"
definition MethodGet :: string where "MethodGet = ''GET''"
definition StatusOK :: int where "StatusOK = 200"
definition StatusFound :: int where "StatusFound = 302"

definition VersionHeader :: string where
  \<comment> \<open>\<open>common.VersionHeader\<close>, named in the package comment of versioncheck.\<close>
  "VersionHeader = ''X-Lantern-Version''"

text \<open>
  What a filter puts on the wire of the downstream connection: a response written with
  \<open>resp.Write(conn)\<close>, or the page written by \<open>mimic.Apache(conn, req)\<close> for the path of a
  request.
\<close>

datatype wire = Written response | ApachePage string

text \<open>
  The downstream connection: what has been written to it, whether it is closed, and the
  two things its peer and the network decide: the error (if any) of a write, and what
  \<open>http.ReadRequest\<close> on the connection returns.
\<close>

record conn =
  written :: "wire list"
  closed :: bool
  write_error :: "error option"
  incoming :: "error + request"

datatype log_entry = Debug string | Error string

text \<open>
  The filter context with its downstream connection, together with the output of the
  package logger and the observations reported to the instrument.
\<close>

record state =
  DownstreamConn :: conn
  logs :: "log_entry list"
  mimic_observed :: "bool list"

text \<open>
  How \<open>Apply\<close> ends. \<open>Next req\<close> is \<open>return next(ctx, req)\<close>: the rest of the chain runs
  on \<open>req\<close> as it is at the moment of the call. \<open>Return resp err\<close> is
  \<open>return resp, ctx, err\<close> without calling \<open>next\<close>. \<open>Panic\<close> is a run-time panic.
\<close>

datatype outcome = Next request | Return "response option" "error option" | Panic string

section \<open>Package versioncheck\<close>

text \<open>
  The functions of other libraries that the package calls: \<open>url.Parse\<close> (of whose result
  the scheme, the host and the text that its method \<open>String\<close> returns are used),
  \<open>semver.ParseRange\<close>, \<open>semver.Make\<close> and \<open>net.SplitHostPort\<close>. The type of versions is
  \<open>'v\<close>; a \<open>semver.Range\<close> is a predicate on versions, as in the library
  (\<open>type Range func(Version) bool\<close>).
\<close>

record URL =
  Scheme :: string
  url_Host :: string
  url_String :: string

record 'v libs =
  url_Parse :: "string \<Rightarrow> error + URL"
  semver_ParseRange :: "string \<Rightarrow> error + ('v \<Rightarrow> bool)"
  semver_Make :: "string \<Rightarrow> error + 'v"
  net_SplitHostPort :: "string \<Rightarrow> error + (string \<times> string)"

definition oneMillion :: int where "oneMillion = 100 * 100 * 100"

record 'v VersionChecker =
  versionRange :: "'v \<Rightarrow> bool"
  rewriteURL :: URL
  rewriteURLString :: string
  rewriteAddr :: string
  tunnelPorts :: "string list"
  ppm :: int

text \<open>
  The percentage is a \<open>float64\<close>, and \<open>percentage * oneMillion\<close> is a \<open>float64\<close>
  product: the exact product rounded to the nearest \<open>float64\<close>, ties to the even
  significand. \<open>float64 x\<close> is the \<open>float64\<close> nearest to the real number \<open>x\<close>:
  53 bits of significand, exponents from -1022 on, subnormal numbers below; a result
  of magnitude \<open>2^1024\<close> or more stands for an infinity. \<open>pow2 k\<close> is the power of two
  with exponent \<open>k\<close>, \<open>ilog2 x\<close> the exponent of the positive number \<open>x\<close>, and
  \<open>round_even\<close> rounds to the nearest integer, ties to the even one.
\<close>

definition pow2 :: "int \<Rightarrow> real" where
  "pow2 k = (if 0 \<le> k then 2 ^ nat k else 1 / 2 ^ nat (- k))"

definition ilog2 :: "real \<Rightarrow> int" where
  "ilog2 x = (if 1 \<le> x then bitlen \<lfloor>x\<rfloor> - 1 else - bitlen (\<lceil>1 / x\<rceil> - 1))"

definition round_even :: "real \<Rightarrow> int" where
  "round_even q =
     (let f = \<lfloor>q\<rfloor>; d = q - of_int f
      in if d < 1 / 2 then f else if 1 / 2 < d then f + 1 else if even f then f else f + 1)"

definition float64 :: "real \<Rightarrow> real" where
  "float64 x =
     (if x = 0 then 0
      else (let e = max (ilog2 \<bar>x\<bar>) (- 1022); u = pow2 (e - 52)
            in of_int (round_even (x / u)) * u))"

text \<open>
  The conversion \<open>int(x)\<close> of a \<open>float64\<close> to the 64-bit \<open>int\<close> discards the fraction.
  When the result does not fit the \<open>int\<close>, Go leaves the value to the implementation:
  compiled for amd64 it is the smallest \<open>int\<close>, \<open>-2^63\<close>.
\<close>

definition go_int :: "real \<Rightarrow> int" where
  "go_int x =
     (let t = (if 0 \<le> x then \<lfloor>x\<rfloor> else \<lceil>x\<rceil>)
      in if - (2 ^ 63) \<le> t \<and> t < 2 ^ 63 then t else - (2 ^ 63))"

text \<open>
  \<open>New\<close>. Its last argument is read through \<open>float64\<close>, as the compiler or the flag
  parser reads a decimal number into the \<open>float64\<close> parameter; it stands for a finite
  \<open>float64\<close> (a NaN or an infinity is not a real number).
\<close>

definition New :: "'v libs \<Rightarrow> string \<Rightarrow> string \<Rightarrow> string list \<Rightarrow> real \<Rightarrow> error + 'v VersionChecker" where
  "New L versionRangeS rewriteURLS tunnelPortsToCheck percentage =
     (case url_Parse L rewriteURLS of
        Inl err \<Rightarrow> Inl err
      | Inr u \<Rightarrow>
          (let rewriteAddr0 = url_Host u;
               rewriteAddr1 = (if Scheme u = ''https'' then rewriteAddr0 @ '':443'' else rewriteAddr0);
               tunnelPortsToCheck1 =
                 (if length tunnelPortsToCheck = 0 then [''80''] else tunnelPortsToCheck)
           in case semver_ParseRange L versionRangeS of
                Inl err \<Rightarrow> Inl err
              | Inr ver \<Rightarrow>
                  Inr \<lparr>versionRange = ver, rewriteURL = u, rewriteURLString = rewriteURLS,
                       rewriteAddr = rewriteAddr1, tunnelPorts = tunnelPortsToCheck1,
                       ppm = go_int (float64 (float64 percentage * real_of_int oneMillion))\<rparr>))"

text \<open>
  \<open>matchVersion\<close>. The argument \<open>draw\<close> is the value of \<open>random.Intn(oneMillion)\<close>,
  an integer in \<open>[0, oneMillion)\<close>.
\<close>

definition matchVersion :: "'v libs \<Rightarrow> 'v VersionChecker \<Rightarrow> request \<Rightarrow> int \<Rightarrow> bool" where
  "matchVersion L c req draw =
     (if Host req = url_Host (rewriteURL c) then False
      else if (case semver_Make L (Header_Get (Header req) VersionHeader) of
                 Inr v \<Rightarrow> \<not> versionRange c v
               | Inl e \<Rightarrow> False) then False
      else if draw \<ge> ppm c then False
      else True)"

definition HasPrefix :: "string \<Rightarrow> string \<Rightarrow> bool" where
  "HasPrefix s p = (take (length p) s = p)"

definition shouldRedirect :: "'v libs \<Rightarrow> 'v VersionChecker \<Rightarrow> request \<Rightarrow> int \<Rightarrow> bool" where
  "shouldRedirect L c req draw =
     (if \<not> HasPrefix (Header_Get (Header req) ''Accept'') ''text/html'' then False
      else if \<not> HasPrefix (Header_Get (Header req) ''User-Agent'') ''Mozilla/'' then False
      else matchVersion L c req draw)"

fun portMeet :: "string \<Rightarrow> string list \<Rightarrow> bool" where
  "portMeet port [] = False"
| "portMeet port (p # ps) = (if port = p then True else portMeet port ps)"

definition shouldRedirectOnConnect :: "'v libs \<Rightarrow> 'v VersionChecker \<Rightarrow> request \<Rightarrow> int \<Rightarrow> bool" where
  "shouldRedirectOnConnect L c req draw =
     (if \<not> matchVersion L c req draw then False
      else case net_SplitHostPort L (Host req) of
             Inl err \<Rightarrow> False
           | Inr (h, port) \<Rightarrow> portMeet port (tunnelPorts c))"

definition redirect :: "'v VersionChecker \<Rightarrow> state \<Rightarrow> request \<Rightarrow> outcome \<times> state" where
  "redirect c st req =
     (Return (Some \<lparr>StatusCode = StatusFound, ProtoMajor = 1, ProtoMinor = 1,
                    resp_Header = [''Location'' \<mapsto> [rewriteURLString c]], Close = True\<rparr>) None,
      st\<lparr>logs := logs st @ [Debug (''Redirecting '' @ Method req @ '' '' @ Host req @ URL_Path req
                                     @ '' to '' @ url_String (rewriteURL c))]\<rparr>)"

definition Write :: "response \<Rightarrow> conn \<Rightarrow> error option \<times> conn" where
  \<comment> \<open>\<open>resp.Write(conn)\<close>: the response is on the wire unless the write fails.\<close>
  "Write resp cn =
     (case write_error cn of
        Some err \<Rightarrow> (Some err, cn)
      | None \<Rightarrow> (None, cn\<lparr>written := written cn @ [Written resp]\<rparr>))"

definition ReadRequest :: "conn \<Rightarrow> request option \<times> error option" where
  \<comment> \<open>\<open>http.ReadRequest\<close>: a request and \<open>nil\<close>, or \<open>nil\<close> and the error.\<close>
  "ReadRequest cn = (case incoming cn of Inl err \<Rightarrow> (None, Some err) | Inr r \<Rightarrow> (Some r, None))"

definition redirectOnConnect :: "'v VersionChecker \<Rightarrow> state \<Rightarrow> request \<Rightarrow> outcome \<times> state" where
  "redirectOnConnect c st req0 =
     (let resp = \<lparr>StatusCode = StatusOK, ProtoMajor = 1, ProtoMinor = 1,
                  resp_Header = Map.empty, Close = False\<rparr>
      in case Write resp (DownstreamConn st) of
           (Some err, cn) \<Rightarrow> (Return None (Some err), st\<lparr>DownstreamConn := cn\<rparr>)
         | (None, cn) \<Rightarrow>
             (let st1 = st\<lparr>DownstreamConn := cn\<rparr>;
                  (req, err) = ReadRequest cn;
                  st2 = (case err of
                           Some e \<Rightarrow> st1\<lparr>logs := logs st1 @
                             [Error (''Fail to read tunneled request before redirecting: '' @ e)]\<rparr>
                         | None \<Rightarrow> st1)
              in case req of
                   None \<Rightarrow> (Panic ''invalid memory address or nil pointer dereference'', st2)
                 | Some r \<Rightarrow> redirect c st2 (r\<lparr>Body := map_option (\<lambda>b. []) (Body r)\<rparr>)))"

text \<open>
  \<open>Apply\<close>. The deferred \<open>req.Header.Del(common.VersionHeader)\<close> runs when \<open>Apply\<close>
  returns, after the value of the return statement has been computed; the second
  component of the result is the request as the deferred call leaves it.
\<close>

definition VersionChecker_Apply ::
  "'v libs \<Rightarrow> 'v VersionChecker \<Rightarrow> int \<Rightarrow> state \<Rightarrow> request \<Rightarrow> outcome \<times> request \<times> state" where
  "VersionChecker_Apply L c draw st req =
     (let (out, st') =
            (if Method req = MethodConnect \<and> shouldRedirectOnConnect L c req draw
               then redirectOnConnect c st req
             else if Method req = MethodGet \<and> shouldRedirect L c req draw
               then redirect c st req
             else (Next req, st))
      in (out, req\<lparr>Header := Header_Del (Header req) VersionHeader\<rparr>, st'))"

section \<open>Package tokenfilter\<close>

record tokenFilter =
  token :: string

text \<open>
  Modelled from the spec: \<open>mimic.Apache\<close> is a package of this repository that is not
  among the sources. It writes the error page a stock web server would produce for the
  request's path directly to the connection; \<open>mimicApache\<close> then closes the connection
  and returns \<open>nil, ctx, nil\<close>.
\<close>

definition mimicApache :: "state \<Rightarrow> request \<Rightarrow> outcome \<times> state" where
  "mimicApache st req =
     (let cn = DownstreamConn st
      in (Return None None,
          st\<lparr>DownstreamConn := cn\<lparr>written := written cn @ [ApachePage (URL_Path req)],
                                   closed := True\<rparr>\<rparr>))"

fun Join :: "string list \<Rightarrow> string \<Rightarrow> string" where
  "Join [] sep = []"
| "Join [a] sep = a"
| "Join (a # b # rest) sep = a @ sep @ Join (b # rest) sep"

fun tokenMatched :: "string \<Rightarrow> string list \<Rightarrow> bool" where
  "tokenMatched tok [] = False"
| "tokenMatched tok (candidate # rest) = (if candidate = tok then True else tokenMatched tok rest)"

text \<open>
  \<open>tokenFilter.Apply\<close>. The name of the token header, \<open>common.TokenHeader\<close>, is a constant
  of a package that is not among the sources: it is the first argument.
\<close>

definition tokenFilter_Apply :: "string \<Rightarrow> tokenFilter \<Rightarrow> state \<Rightarrow> request \<Rightarrow> outcome \<times> state" where
  "tokenFilter_Apply TokenHeader f st req =
     (if token f = [] then (Next req, st)
      else
        (let noToken = mimicApache
               (st\<lparr>logs := logs st @ [Error ''No token provided, mimicking apache''],
                   mimic_observed := mimic_observed st @ [True]\<rparr>) req
         in case Header req TokenHeader of
              None \<Rightarrow> noToken
            | Some [] \<Rightarrow> noToken
            | Some (t0 # ts) \<Rightarrow>
                if t0 = [] then noToken
                else if tokenMatched (token f) (t0 # ts)
                  then (Next (req\<lparr>Header := Header_Del (Header req) TokenHeader\<rparr>),
                        st\<lparr>mimic_observed := mimic_observed st @ [False]\<rparr>)
                else mimicApache
                       (st\<lparr>logs := logs st @ [Error (''Mismatched token(s) '' @
                                      Join (t0 # ts) '','' @ '', mimicking apache'')],
                           mimic_observed := mimic_observed st @ [True]\<rparr>) req))"

section \<open>Package tunnelportsfilter\<close>

text \<open>
  Modelled from the spec: the implementation of the port admission filter is not among
  the sources (only its test is). Section 4.1 of the specification: the filter applies
  only to CONNECT requests and all other methods pass through; the target is parsed as
  \<open>host:port\<close>; if it cannot be split (no colon), or the port segment is empty, or the
  port segment is not a valid integer, the reply is 400 Bad Request with close; if the
  port parses but is not in the allowed set, the reply is 403 Forbidden with close; if
  the port is allowed, the request continues unchanged.
\<close>

definition StatusBadRequest :: int where "StatusBadRequest = 400"
definition StatusForbidden :: int where "StatusForbidden = 403"

definition split_target :: "string \<Rightarrow> (string \<times> string) option" where
  \<comment> \<open>The target split at its last colon; \<open>None\<close> when it has no colon.\<close>
  "split_target s =
     (if CHR '':'' \<in> set s
      then Some (rev (drop 1 (dropWhile (\<lambda>ch. ch \<noteq> CHR '':'') (rev s))),
                 rev (takeWhile (\<lambda>ch. ch \<noteq> CHR '':'') (rev s)))
      else None)"

definition is_digit :: "char \<Rightarrow> bool" where
  "is_digit ch = (ch \<in> set ''0123456789'')"

definition digits_value :: "string \<Rightarrow> int" where
  "digits_value ds = foldl (\<lambda>acc ch. 10 * acc + (int (of_char ch) - 48)) 0 ds"

definition parse_integer :: "string \<Rightarrow> int option" where
  \<comment> \<open>A valid integer: an optional sign and at least one decimal digit.\<close>
  "parse_integer s =
     (let (neg, ds) = (case s of
                         ch # rest \<Rightarrow> if ch = CHR ''-'' then (True, rest)
                                     else if ch = CHR ''+'' then (False, rest)
                                     else (False, s)
                       | [] \<Rightarrow> (False, s))
      in if ds \<noteq> [] \<and> list_all is_digit ds
         then Some (if neg then - digits_value ds else digits_value ds)
         else None)"

definition target_port :: "string \<Rightarrow> int option" where
  \<comment> \<open>The port of a target, when it splits and its port segment is a valid integer.\<close>
  "target_port s =
     (case split_target s of
        None \<Rightarrow> None
      | Some (h, p) \<Rightarrow> if p = [] then None else parse_integer p)"

definition Reply :: "int \<Rightarrow> outcome" where
  "Reply status =
     Return (Some \<lparr>StatusCode = status, ProtoMajor = 1, ProtoMinor = 1,
                   resp_Header = Map.empty, Close = True\<rparr>) None"

definition PortAdmissionFilter :: "int set \<Rightarrow> request \<Rightarrow> outcome" where
  \<comment> \<open>Modelled from the spec: section 4.1, as quoted above.\<close>
  "PortAdmissionFilter allowed req =
     (if Method req \<noteq> MethodConnect then Next req
      else case target_port (Host req) of
             None \<Rightarrow> Reply StatusBadRequest
           | Some port \<Rightarrow> if port \<in> allowed then Next req else Reply StatusForbidden)"

section \<open>Calendar time\<close>

text \<open>
  Go's \<open>time\<close> package as the usage reporter uses it: the methods \<open>Year\<close>, \<open>Month\<close>,
  \<open>Location\<close>, \<open>Add\<close> and \<open>Unix\<close> of a \<open>time.Time\<close>, and \<open>time.Date\<close>. A
  \<open>time.Duration\<close> is a number of nanoseconds.

  A point of the calendar is a reading: year, month, day of the month and nanosecond of
  the day (proleptic Gregorian calendar). \<open>plus_ns c d\<close> is the reading \<open>d\<close>
  nanoseconds after \<open>c\<close>, and \<open>civil_before\<close> is the order of readings.
\<close>

record civil =
  year :: int
  month :: int
  day :: int
  nsec :: int

definition January :: int where "January = 1"
definition December :: int where "December = 12"
definition Nanosecond :: int where "Nanosecond = 1"
definition Second :: int where "Second = 1000000000"
definition nsPerDay :: int where "nsPerDay = 86400 * 1000000000"

definition isLeap :: "int \<Rightarrow> bool" where
  "isLeap y = (y mod 4 = 0 \<and> (y mod 100 \<noteq> 0 \<or> y mod 400 = 0))"

definition daysIn :: "int \<Rightarrow> int \<Rightarrow> int" where
  "daysIn y m =
     (if m = 2 then (if isLeap y then 29 else 28)
      else if m = 4 \<or> m = 6 \<or> m = 9 \<or> m = 11 then 30
      else 31)"

definition valid_civil :: "civil \<Rightarrow> bool" where
  "valid_civil c =
     (1 \<le> month c \<and> month c \<le> 12 \<and> 1 \<le> day c \<and> day c \<le> daysIn (year c) (month c) \<and>
      0 \<le> nsec c \<and> nsec c < nsPerDay)"

definition nextDay :: "civil \<Rightarrow> civil" where
  "nextDay c =
     (if day c < daysIn (year c) (month c) then c\<lparr>day := day c + 1\<rparr>
      else if month c < 12 then c\<lparr>month := month c + 1, day := 1\<rparr>
      else c\<lparr>year := year c + 1, month := 1, day := 1\<rparr>)"

definition prevDay :: "civil \<Rightarrow> civil" where
  "prevDay c =
     (if 1 < day c then c\<lparr>day := day c - 1\<rparr>
      else if 1 < month c then c\<lparr>month := month c - 1, day := daysIn (year c) (month c - 1)\<rparr>
      else c\<lparr>year := year c - 1, month := 12, day := 31\<rparr>)"

definition addDays :: "int \<Rightarrow> civil \<Rightarrow> civil" where
  "addDays k c = (if 0 \<le> k then (nextDay ^^ nat k) c else (prevDay ^^ nat (- k)) c)"

definition plus_ns :: "civil \<Rightarrow> int \<Rightarrow> civil" where
  "plus_ns c d = (let n = nsec c + d in addDays (n div nsPerDay) (c\<lparr>nsec := n mod nsPerDay\<rparr>))"

definition civil_before :: "civil \<Rightarrow> civil \<Rightarrow> bool" where
  "civil_before a b =
     (year a < year b \<or> (year a = year b \<and>
       (month a < month b \<or> (month a = month b \<and>
         (day a < day b \<or> (day a = day b \<and> nsec a < nsec b))))))"


text \<open>
  A \<open>time.Location\<close>: its name and its \<open>lookup\<close>, which gives for an instant the
  offset of the zone in force, in seconds east of UTC, and the instants at which that
  zone begins and ends (\<open>None\<close> where it has no bound). A \<open>time.Time\<close> is an instant,
  held by its UTC reading, and a location. \<open>wall_clock t\<close> is the reading of \<open>t\<close> in
  its location.
\<close>

record location =
  zone_name :: string
  lookup :: "civil \<Rightarrow> int \<times> civil option \<times> civil option"

record Time =
  utc :: civil
  Location :: location

definition offset_at :: "Time \<Rightarrow> int" where
  "offset_at t = fst (lookup (Location t) (utc t))"

definition wall_clock :: "Time \<Rightarrow> civil" where
  "wall_clock t = plus_ns (utc t) (offset_at t * Second)"

definition Year :: "Time \<Rightarrow> int" where "Year t = year (wall_clock t)"
definition Month :: "Time \<Rightarrow> int" where "Month t = month (wall_clock t)"

definition Add :: "Time \<Rightarrow> int \<Rightarrow> Time" where
  \<comment> \<open>\<open>t.Add(d)\<close>: the instant \<open>d\<close> nanoseconds after \<open>t\<close>.\<close>
  "Add t d = t\<lparr>utc := plus_ns (utc t) d\<rparr>"

definition Unix :: "Time \<Rightarrow> civil" where
  \<comment> \<open>\<open>t.Unix()\<close> counts whole seconds: the second of \<open>t\<close>, by its UTC reading.\<close>
  "Unix t = (utc t)\<lparr>nsec := nsec (utc t) - nsec (utc t) mod Second\<rparr>"

text \<open>
  \<open>time.Date\<close> normalises its arguments and reads them as a reading \<open>unix\<close> in UTC. It
  then looks the zone up at \<open>unix\<close>; if the offset is not zero and \<open>unix\<close> less the
  offset is outside the zone found, it takes the offset found at that instant instead.
  The result is \<open>unix\<close> less the offset.
\<close>

definition Date_offset :: "location \<Rightarrow> civil \<Rightarrow> int" where
  "Date_offset l unix =
     (case lookup l unix of
        (offset, start, fin) \<Rightarrow>
          if offset \<noteq> 0
          then (let utc0 = plus_ns unix (- offset * Second)
                in if (case start of None \<Rightarrow> False | Some s \<Rightarrow> civil_before utc0 s) \<or>
                      (case fin of None \<Rightarrow> False | Some f \<Rightarrow> \<not> civil_before utc0 f)
                   then fst (lookup l utc0) else offset)
          else offset)"

definition Date :: "int \<Rightarrow> int \<Rightarrow> int \<Rightarrow> int \<Rightarrow> int \<Rightarrow> int \<Rightarrow> int \<Rightarrow> location \<Rightarrow> Time" where
  "Date y m d hour minute sec ns l =
     (let m0 = m - 1;
          unix = plus_ns \<lparr>year = y + m0 div 12, month = m0 mod 12 + 1, day = 1, nsec = 0\<rparr>
                   ((d - 1) * nsPerDay + hour * 3600000000000 + minute * 60000000000
                    + sec * 1000000000 + ns)
      in \<lparr>utc = plus_ns unix (- Date_offset l unix * Second), Location = l\<rparr>)"

section \<open>The usage reporter (package redis)\<close>

text \<open>\<open>measured.Stats\<close>: the two counters the reporter reads, unsigned 64-bit.\<close>

record Stats =
  SentTotal :: "64 word"
  RecvTotal :: "64 word"

text \<open>
  The Redis client: the integer fields of its hashes (a missing field counts as 0, as
  \<open>HINCRBY\<close> reads it), the expiry of its keys, the keys for which a transaction was
  issued, in order, and what the server decides: the error, if any, with which the
  transaction on a key ends. A transaction that ends with an error changes nothing.
  The client's \<open>ExpireAt(key, tm)\<close> sends \<open>EXPIREAT\<close> with \<open>tm.Unix()\<close>, so the expiry
  of a key is a whole second.
\<close>

record redis =
  hashes :: "string \<Rightarrow> string \<Rightarrow> int"
  expireAt :: "string \<rightharpoonup> civil"
  execs :: "string list"
  exec_error :: "string \<Rightarrow> error option"

text \<open>
  Modelled from the spec: \<open>usage.Set\<close> is a package of this repository that is not among
  the sources; it takes a device's new cumulative total and a timestamp.
\<close>

record backend =
  rc :: redis
  usage :: "string \<rightharpoonup> (64 word \<times> Time)"

definition clientKey :: "string \<Rightarrow> string" where
  "clientKey deviceID = ''_client:'' @ deviceID"

definition multi_Exec :: "redis \<Rightarrow> string \<Rightarrow> Stats \<Rightarrow> Time \<Rightarrow> error option \<times> int \<times> int \<times> redis" where
  \<comment> \<open>The transaction of one device: both \<open>HIncrBy\<close> and the \<open>ExpireAt\<close>.\<close>
  "multi_Exec r deviceID stats endOfThisMonth =
     (let key = clientKey deviceID;
          r1 = r\<lparr>execs := execs r @ [key]\<rparr>
      in case exec_error r key of
           Some merr \<Rightarrow> (Some merr, 0, 0, r1)
         | None \<Rightarrow>
             (let bytesIn = hashes r key ''bytesIn'' + sint (RecvTotal stats);
                  bytesOut = hashes r key ''bytesOut'' + sint (SentTotal stats)
              in (None, bytesIn, bytesOut,
                  r1\<lparr>hashes := (hashes r)(key := (hashes r key)
                                   (''bytesIn'' := bytesIn, ''bytesOut'' := bytesOut)),
                     expireAt := (expireAt r)(key \<mapsto> Unix endOfThisMonth)\<rparr>)))"

text \<open>The first lines of \<open>submit\<close>: its two local times, as functions of \<open>now\<close>.\<close>

definition beginningOfNextMonth :: "Time \<Rightarrow> Time" where
  "beginningOfNextMonth now =
     (let nextMonth0 = Month now + 1;
          nextYear0 = Year now;
          (nextMonth, nextYear) =
            (if nextMonth0 > December then (January, nextYear0 + 1) else (nextMonth0, nextYear0))
      in Date nextYear nextMonth 1 0 0 0 0 (Location now))"

definition endOfThisMonth :: "Time \<Rightarrow> Time" where
  "endOfThisMonth now = Add (beginningOfNextMonth now) (- 1 * Nanosecond)"

text \<open>
  The loop of \<open>submit\<close> over the entries of the map, in the order in which \<open>range\<close>
  visits them.
\<close>

fun submit_range :: "Time \<Rightarrow> Time \<Rightarrow> (string \<times> Stats) list \<Rightarrow> backend \<Rightarrow> error option \<times> backend" where
  "submit_range now eotm [] b = (None, b)"
| "submit_range now eotm ((deviceID, stats) # rest) b =
     (case multi_Exec (rc b) deviceID stats eotm of
        (Some merr, bytesIn, bytesOut, r) \<Rightarrow> (Some merr, b\<lparr>rc := r\<rparr>)
      | (None, bytesIn, bytesOut, r) \<Rightarrow>
          submit_range now eotm rest
            (b\<lparr>rc := r,
               usage := (usage b)(deviceID \<mapsto>
                          ((word_of_int bytesIn + word_of_int bytesOut :: 64 word), now))\<rparr>))"

definition submit :: "backend \<Rightarrow> Time \<Rightarrow> (string \<times> Stats) list \<Rightarrow> error option \<times> backend" where
  "submit b now entries = submit_range now (endOfThisMonth now) entries b"

text \<open>
  The value of \<open>ctx["deviceid"]\<close>, an \<open>interface{}\<close>: \<open>nil\<close>, a string, or a value of
  another type, on which the type assertion \<open>.(string)\<close> panics.
\<close>

datatype iface = Nil | Str string | Other

record statsAndContext =
  ctx_deviceid :: iface
  stats :: Stats

text \<open>
  The two events of the reporter's loop: a sample received from the channel, and a tick
  of the ticker, at which \<open>time.Now()\<close> is the given time and \<open>range\<close> visits the keys of
  the map in the given order.
\<close>

datatype event = Received statsAndContext | Tick Time "string list"

record reporter =
  statsByDeviceID :: "string \<rightharpoonup> Stats"
  store :: backend
  reported :: "log_entry list"

definition range_entries :: "(string \<rightharpoonup> Stats) \<Rightarrow> string list \<Rightarrow> (string \<times> Stats) list" where
  "range_entries m order = List.map_filter (\<lambda>k. map_option (Pair k) (m k)) order"

fun reportPeriodically_step :: "reporter \<Rightarrow> event \<Rightarrow> error + reporter" where
  "reportPeriodically_step st (Received sac) =
     (case ctx_deviceid sac of
        Nil \<Rightarrow> Inr st
      | Other \<Rightarrow> Inl ''interface conversion: interface {} is not string''
      | Str deviceID \<Rightarrow>
          (case statsByDeviceID st deviceID of
             None \<Rightarrow> Inr (st\<lparr>statsByDeviceID := (statsByDeviceID st)(deviceID \<mapsto> stats sac)\<rparr>)
           | Some existing \<Rightarrow>
               Inr (st\<lparr>statsByDeviceID := (statsByDeviceID st)(deviceID \<mapsto>
                      existing\<lparr>SentTotal := SentTotal existing + SentTotal (stats sac),
                               RecvTotal := RecvTotal existing + RecvTotal (stats sac)\<rparr>)\<rparr>)))"
| "reportPeriodically_step st (Tick now order) =
     (case submit (store st) now (range_entries (statsByDeviceID st) order) of
        (Some err, b) \<Rightarrow>
          Inr (st\<lparr>statsByDeviceID := Map.empty, store := b,
                  reported := reported st @ [Error (''Unable to submit stats: '' @ err)]\<rparr>)
      | (None, b) \<Rightarrow> Inr (st\<lparr>statsByDeviceID := Map.empty, store := b\<rparr>))"

section \<open>A concrete configuration\<close>

text \<open>
  The answers of the libraries at the inputs of the examples below. Versions are triples
  (major, minor, patch); the range \<open><3.1.0\<close> holds the versions below 3.1.0.
\<close>

definition below_3_1_0 :: "nat \<times> nat \<times> nat \<Rightarrow> bool" where
  "below_3_1_0 v = (case v of (major, minor, patch) \<Rightarrow> major < 3 \<or> (major = 3 \<and> minor < 1))"

definition example_libs :: "(nat \<times> nat \<times> nat) libs" where
  "example_libs =
     \<lparr>url_Parse = (\<lambda>s. if s = ''http://lantern.io/upgrade''
                         then Inr \<lparr>Scheme = ''http'', url_Host = ''lantern.io'',
                                   url_String = ''http://lantern.io/upgrade''\<rparr>
                        else Inl ''parse error''),
      semver_ParseRange = (\<lambda>s. if s = ''<3.1.0'' then Inr below_3_1_0
                                else Inl ''Could not get version from string''),
      semver_Make = (\<lambda>s. if s = ''3.0.0'' then Inr (3, 0, 0)
                          else if s = ''4.0.0'' then Inr (4, 0, 0)
                          else Inl ''Version string empty''),
      net_SplitHostPort = (\<lambda>s. if s = ''lantern.io:80'' then Inr (''lantern.io'', ''80'')
                                else if s = ''example.com:80'' then Inr (''example.com'', ''80'')
                                else Inl ''missing port in address'')\<rparr>"

definition example_checker :: "real \<Rightarrow> (nat \<times> nat \<times> nat) VersionChecker" where
  \<comment> \<open>What \<open>New("<3.1.0", "http://lantern.io/upgrade", nil, percentage)\<close> returns.\<close>
  "example_checker percentage =
     \<lparr>versionRange = below_3_1_0,
      rewriteURL = \<lparr>Scheme = ''http'', url_Host = ''lantern.io'',
                    url_String = ''http://lantern.io/upgrade''\<rparr>,
      rewriteURLString = ''http://lantern.io/upgrade'',
      rewriteAddr = ''lantern.io'',
      tunnelPorts = [''80''],
      ppm = go_int (float64 (float64 percentage * 1000000))\<rparr>"

definition example_request :: "string \<Rightarrow> string \<Rightarrow> header \<Rightarrow> request" where
  "example_request m h hs = \<lparr>Method = m, Host = h, URL_Path = ''/'', Header = hs, Body = None\<rparr>"

definition browser_headers :: "string \<Rightarrow> header" where
  \<comment> \<open>The headers of a browser's first request, with the given client version.\<close>
  "browser_headers v =
     [''Accept'' \<mapsto> [''text/html,application/xhtml+xml''],
      ''User-Agent'' \<mapsto> [''Mozilla/5.0''],
      ''X-Lantern-Version'' \<mapsto> [v]]"

definition example_conn :: "error + request \<Rightarrow> conn" where
  "example_conn inc = \<lparr>written = [], closed = False, write_error = None, incoming = inc\<rparr>"

definition example_state :: "error + request \<Rightarrow> state" where
  "example_state inc = \<lparr>DownstreamConn = example_conn inc, logs = [], mimic_observed = []\<rparr>"

text \<open>A connection on which writes fail.\<close>

definition broken_state :: "error + request \<Rightarrow> state" where
  "broken_state inc =
     \<lparr>DownstreamConn = (example_conn inc)\<lparr>write_error := Some ''broken pipe''\<rparr>,
      logs = [], mimic_observed = []\<rparr>"

text \<open>
  Two locations: UTC, and a location with the one zone transition of America/Asuncion
  that the examples meet: on 1 October 2017 at 04:00 UTC, which is local midnight, the
  offset goes from four hours west to three hours west, and the local clock from 00:00
  to 01:00.
\<close>

definition UTC :: location where
  "UTC = \<lparr>zone_name = ''UTC'', lookup = (\<lambda>t. (0, None, None))\<rparr>"


text \<open>
  A reporter at a tick of 15 December 2024 (UTC) with three devices in its map, for the
  second of which the server refuses the transaction; and a tick of 15 September 2017
  in the second location.
\<close>

definition example_now :: Time where
  "example_now = \<lparr>utc = \<lparr>year = 2024, month = 12, day = 15, nsec = 0\<rparr>, Location = UTC\<rparr>"


definition example_reporter :: reporter where
  "example_reporter =
     \<lparr>statsByDeviceID =
        [''a'' \<mapsto> \<lparr>SentTotal = 10, RecvTotal = 20\<rparr>,
         ''b'' \<mapsto> \<lparr>SentTotal = 1, RecvTotal = 2\<rparr>,
         ''c'' \<mapsto> \<lparr>SentTotal = 5, RecvTotal = 6\<rparr>],
      store =
        \<lparr>rc = \<lparr>hashes = (\<lambda>key field. 0), expireAt = Map.empty, execs = [],
               exec_error = (\<lambda>key. if key = ''_client:b'' then Some ''connection refused''
                                    else None)\<rparr>,
         usage = Map.empty\<rparr>,
      reported = []\<rparr>"

section \<open>Rounding to a float64\<close>

lemma pow2_powr: "pow2 k = 2 powr (of_int k)"
proof (cases "0 \<le> k")
  case True
  then show ?thesis
    by (simp add: pow2_def powr_realpow [symmetric])
next
  case False
  then have "(2::real) powr (of_int k) = 1 / 2 powr (of_int (- k))"
    by (simp add: powr_minus divide_inverse)
  also have "\<dots> = 1 / 2 ^ nat (- k)"
    using False by (simp add: powr_realpow [symmetric])
  finally show ?thesis
    using False by (simp add: pow2_def)
qed

lemma pow2_pos: "0 < pow2 k"
  by (simp add: pow2_powr)

lemma pow2_add: "pow2 (a + b) = pow2 a * pow2 b"
  by (simp add: pow2_powr powr_add)

lemma pow2_mono: "a \<le> b \<Longrightarrow> pow2 a \<le> pow2 b"
  by (simp add: pow2_powr)

lemma pow2_nonneg_int: "0 \<le> k \<Longrightarrow> pow2 k = of_int (2 ^ nat k)"
  by (simp add: pow2_def)

lemma ilog2_bounds:
  assumes "0 < x"
  shows "pow2 (ilog2 x) \<le> x" and "x < pow2 (ilog2 x + 1)"
proof -
  have "pow2 (ilog2 x) \<le> x \<and> x < pow2 (ilog2 x + 1)"
  proof (cases "1 \<le> x")
    case True
    let ?n = "\<lfloor>x\<rfloor>"
    from True have n: "0 < ?n" by simp
    from bitlen_bounds [OF n] have lo: "2 ^ nat (bitlen ?n - 1) \<le> ?n" and hi: "?n < 2 ^ nat (bitlen ?n)"
      by simp_all
    from n have b: "1 \<le> bitlen ?n"
      by (simp add: bitlen_alt_def)
    have "pow2 (bitlen ?n - 1) = of_int (2 ^ nat (bitlen ?n - 1))"
      using b by (simp add: pow2_nonneg_int)
    also have "\<dots> \<le> of_int ?n"
      using lo by (simp only: of_int_le_iff)
    also have "\<dots> \<le> x" by simp
    finally have 1: "pow2 (bitlen ?n - 1) \<le> x" .
    have "?n + 1 \<le> 2 ^ nat (bitlen ?n)"
      using hi by simp
    then have "real_of_int (?n + 1) \<le> of_int (2 ^ nat (bitlen ?n))"
      by (simp only: of_int_le_iff)
    moreover have "x < real_of_int (?n + 1)"
      by simp
    ultimately have "x < of_int (2 ^ nat (bitlen ?n))"
      by linarith
    also have "\<dots> = pow2 (bitlen ?n)"
      using b by (simp add: pow2_nonneg_int)
    finally have 2: "x < pow2 (bitlen ?n - 1 + 1)" by simp
    from 1 2 True show ?thesis
      by (simp add: ilog2_def)
  next
    case False
    with assms have x1: "x < 1" and inv: "1 < 1 / x"
      by simp_all
    let ?j = "\<lceil>1 / x\<rceil> - 1"
    from inv have j: "0 < ?j"
      by (simp add: less_ceiling_iff)
    let ?k = "bitlen ?j"
    from j have k: "1 \<le> ?k"
      by (simp add: bitlen_alt_def)
    from bitlen_bounds [OF j] have lo: "2 ^ nat (?k - 1) \<le> ?j" and hi: "?j < 2 ^ nat ?k"
      by simp_all
    have jlt: "real_of_int ?j < 1 / x"
      using ceiling_correct [of "1 / x"] by simp
    have jge: "1 / x \<le> real_of_int (?j + 1)"
      by simp
    have "?j + 1 \<le> 2 ^ nat ?k"
      using hi by simp
    then have "real_of_int (?j + 1) \<le> of_int (2 ^ nat ?k)"
      by (simp only: of_int_le_iff)
    with jge have "1 / x \<le> real_of_int (2 ^ nat ?k)"
      by linarith
    then have "1 / x \<le> 2 ^ nat ?k"
      by (simp only: of_int_power of_int_numeral)
    then have "1 \<le> 2 ^ nat ?k * x"
      using assms by (simp add: field_simps)
    then have 1: "pow2 (- ?k) \<le> x"
      using k by (simp add: pow2_def field_simps)
    have "real_of_int (2 ^ nat (?k - 1)) \<le> of_int ?j"
      using lo by (simp only: of_int_le_iff)
    with jlt have "real_of_int (2 ^ nat (?k - 1)) < 1 / x"
      by linarith
    then have "2 ^ nat (?k - 1) < 1 / x"
      by (simp only: of_int_power of_int_numeral)
    then have "x < 1 / 2 ^ nat (?k - 1)"
      using assms by (simp add: field_simps)
    moreover have "pow2 (- ?k + 1) = 1 / 2 ^ nat (?k - 1)"
    proof (cases "?k = 1")
      case True
      then show ?thesis by (simp add: pow2_def)
    next
      case False
      with k have "- ?k + 1 < 0" by simp
      then show ?thesis
        by (simp add: pow2_def)
    qed
    ultimately have 2: "x < pow2 (- ?k + 1)"
      by (simp only:)
    from 1 2 False show ?thesis
      by (simp add: ilog2_def)
  qed
  then show "pow2 (ilog2 x) \<le> x" and "x < pow2 (ilog2 x + 1)"
    by simp_all
qed

lemma round_even_ge_floor: "\<lfloor>q\<rfloor> \<le> round_even q"
  by (simp add: round_even_def Let_def)

lemma round_even_ge: "of_int n \<le> q \<Longrightarrow> n \<le> round_even q"
  using round_even_ge_floor [of q] le_floor_iff [of n q] by linarith


lemma float64_pos_eq:
  assumes "0 < y"
  shows "float64 y = of_int (round_even (y / pow2 (max (ilog2 y) (- 1022) - 52)))
                       * pow2 (max (ilog2 y) (- 1022) - 52)"
  using assms by (simp add: float64_def Let_def)

text \<open>Rounding never goes below a float64 that the value is not below.\<close>

lemma float64_ge:
  assumes m: "0 < m" "m < 2 ^ 53" and s: "- 1074 \<le> s"
    and le: "of_int m * pow2 s \<le> y"
  shows "of_int m * pow2 s \<le> float64 y"
proof -
  let ?c = "real_of_int m * pow2 s"
  define e where "e = max (ilog2 y) (- 1022)"
  define u where "u = pow2 (e - 52)"
  have c0: "0 < ?c"
    using m(1) pow2_pos [of s] by simp
  with le have y0: "0 < y" by linarith
  have u0: "0 < u"
    by (simp add: u_def pow2_pos)
  have f: "float64 y = of_int (round_even (y / u)) * u"
    using float64_pos_eq [OF y0] by (simp add: e_def u_def)
  show ?thesis
  proof (cases "e - 52 \<le> s")
    case True
    define N where "N = m * 2 ^ nat (s - (e - 52))"
    have "pow2 s = pow2 ((s - (e - 52)) + (e - 52))"
      by simp
    also have "\<dots> = pow2 (s - (e - 52)) * u"
      unfolding u_def by (rule pow2_add)
    also have "pow2 (s - (e - 52)) = of_int (2 ^ nat (s - (e - 52)))"
      using True by (simp add: pow2_nonneg_int)
    finally have c: "?c = of_int N * u"
      by (simp add: N_def)
    have "of_int N \<le> y / u"
      using le c u0 by (simp add: pos_le_divide_eq)
    then have "N \<le> round_even (y / u)"
      by (rule round_even_ge)
    then have "real_of_int N \<le> of_int (round_even (y / u))"
      by (simp only: of_int_le_iff)
    then have "of_int N * u \<le> of_int (round_even (y / u)) * u"
      using u0 by (simp only: mult_le_cancel_right_pos)
    then show ?thesis
      using c f by simp
  next
    case False
    then have big: "s + 53 \<le> e" by simp
    with s have "- 1022 < e" by simp
    then have e: "e = ilog2 y"
      by (simp add: e_def max_def split: if_splits)
    have "pow2 e \<le> y"
      using ilog2_bounds(1) [OF y0] e by simp
    moreover have "pow2 e = pow2 (52 + (e - 52))"
      by simp
    then have pe: "pow2 e = pow2 52 * u"
      unfolding u_def by (simp only: pow2_add)
    ultimately have "pow2 52 \<le> y / u"
      using u0 by (simp add: pos_le_divide_eq)
    moreover have "pow2 52 = real_of_int (2 ^ 52)"
      by (simp add: pow2_def)
    ultimately have "real_of_int (2 ^ 52) \<le> y / u"
      by simp
    then have "2 ^ 52 \<le> round_even (y / u)"
      by (rule round_even_ge)
    then have "real_of_int (2 ^ 52) \<le> of_int (round_even (y / u))"
      by (simp only: of_int_le_iff)
    then have "real_of_int (2 ^ 52) * u \<le> of_int (round_even (y / u)) * u"
      using u0 by (simp only: mult_le_cancel_right_pos)
    then have lower: "pow2 e \<le> float64 y"
      using pe f \<open>pow2 52 = real_of_int (2 ^ 52)\<close> by simp
    have "real_of_int m \<le> of_int (2 ^ 53)"
      using m(2) by (simp only: of_int_le_iff)
    then have "?c \<le> of_int (2 ^ 53) * pow2 s"
      using pow2_pos [of s] by (simp only: mult_le_cancel_right_pos)
    also have "of_int (2 ^ 53) = pow2 53"
      by (simp add: pow2_def)
    also have "pow2 53 * pow2 s = pow2 (s + 53)"
      by (simp add: pow2_add)
    also have "\<dots> \<le> pow2 e"
      using big by (rule pow2_mono)
    finally show ?thesis
      using lower by linarith
  qed
qed

lemma float64_ge_1: "1 \<le> y \<Longrightarrow> 1 \<le> float64 y"
  using float64_ge [of 1 0 y] by (simp add: pow2_def)

lemma float64_ge_million: "1000000 \<le> y \<Longrightarrow> 1000000 \<le> float64 y"
  using float64_ge [of 15625 6 y] by (simp add: pow2_def)

lemma float64_values:
  "float64 0 = 0" "float64 1 = 1" "float64 5 = 5" "float64 1000000 = 1000000"
  "float64 5000000 = 5000000" "float64 10000000000000 = 10000000000000"
  "float64 10000000000000000000 = 10000000000000000000"
  by (simp_all add: float64_def ilog2_def pow2_def round_even_def Let_def compute_bitlen)

section \<open>The version gate\<close>

lemma matchVersion_iff:
  "matchVersion L c req draw \<longleftrightarrow>
     Host req \<noteq> url_Host (rewriteURL c) \<and>
     (case semver_Make L (Header_Get (Header req) VersionHeader) of
        Inr v \<Rightarrow> versionRange c v | Inl e \<Rightarrow> True) \<and>
     draw < ppm c"
  by (auto simp: matchVersion_def split: sum.splits)

lemma example_version_header:
  "Header_Get (Header (example_request m h (browser_headers v))) VersionHeader = v"
  by (simp add: example_request_def browser_headers_def Header_Get_def VersionHeader_def)

lemma example_Make:
  "semver_Make example_libs ''3.0.0'' = Inr (3, 0, 0)"
  "semver_Make example_libs ''4.0.0'' = Inr (4, 0, 0)"
  "semver_Make example_libs [] = Inl ''Version string empty''"
  by (simp_all add: example_libs_def)

lemma example_range:
  "versionRange (example_checker p) (3, 0, 0)"
  "\<not> versionRange (example_checker p) (4, 0, 0)"
  by (simp_all add: example_checker_def below_3_1_0_def)

lemma example_host:
  "Host (example_request m h hs) = h"
  "Method (example_request m h hs) = m"
  "url_Host (rewriteURL (example_checker p)) = ''lantern.io''"
  by (simp_all add: example_request_def example_checker_def)

lemma example_ppm:
  "ppm (example_checker 0) = 0"
  "ppm (example_checker 1) = 1000000"
  "ppm (example_checker 5) = 5000000"
  by (simp_all add: example_checker_def float64_values go_int_def)

text \<open>
  C2, as the code has it. The configured range holds the versions that are redirected:
  a request whose client-version header parses as a semantic version that is outside
  the range is never matched, whatever the draw and the sampling threshold. A request
  to another host than the rewrite URL's whose version is inside the range, or whose
  header is missing or does not parse, is decided by the sampling step alone.
\<close>

theorem matchVersion_range_gate:
  "(semver_Make L (Header_Get (Header req) VersionHeader) = Inr v \<and> \<not> versionRange c v
      \<longrightarrow> matchVersion L c req draw = False) \<and>
   (semver_Make L (Header_Get (Header req) VersionHeader) = Inr v \<and> versionRange c v \<and>
    Host req \<noteq> url_Host (rewriteURL c)
      \<longrightarrow> matchVersion L c req draw = (draw < ppm c)) \<and>
   (semver_Make L (Header_Get (Header req) VersionHeader) = Inl e \<and>
    Host req \<noteq> url_Host (rewriteURL c)
      \<longrightarrow> matchVersion L c req draw = (draw < ppm c))"
  by (simp add: matchVersion_iff)

text \<open>
  The three cases at the example configuration with threshold 1,000,000 and draw 0:
  version 4.0.0 (outside \<open><3.1.0\<close>), version 3.0.0 (inside), and no version header.
\<close>

theorem matchVersion_range_gate_witness:
  "matchVersion example_libs (example_checker 1)
     (example_request ''GET'' ''example.com'' (browser_headers ''4.0.0'')) 0 = False \<and>
   matchVersion example_libs (example_checker 1)
     (example_request ''GET'' ''example.com'' (browser_headers ''3.0.0'')) 0 = True \<and>
   matchVersion example_libs (example_checker 1)
     (example_request ''GET'' ''example.com'' (browser_headers [])) 0 = True"
proof -
  let ?c = "example_checker 1 :: (nat \<times> nat \<times> nat) VersionChecker"
  let ?r4 = "example_request ''GET'' ''example.com'' (browser_headers ''4.0.0'')"
  let ?r3 = "example_request ''GET'' ''example.com'' (browser_headers ''3.0.0'')"
  let ?r0 = "example_request ''GET'' ''example.com'' (browser_headers [])"
  have outside: "semver_Make example_libs (Header_Get (Header ?r4) VersionHeader) = Inr (4, 0, 0)
      \<and> \<not> versionRange ?c (4, 0, 0)"
    by (simp add: example_version_header example_Make example_range)
  have inside: "semver_Make example_libs (Header_Get (Header ?r3) VersionHeader) = Inr (3, 0, 0)
      \<and> versionRange ?c (3, 0, 0) \<and> Host ?r3 \<noteq> url_Host (rewriteURL ?c)"
    by (simp add: example_version_header example_Make example_range example_host)
  have unparsed: "semver_Make example_libs (Header_Get (Header ?r0) VersionHeader)
        = Inl ''Version string empty''
      \<and> Host ?r0 \<noteq> url_Host (rewriteURL ?c)"
    by (simp add: example_version_header example_Make example_host)
  have "matchVersion example_libs ?c ?r4 0 = False"
    using matchVersion_range_gate [of example_libs ?r4 "(4, 0, 0)" ?c 0] outside by blast
  moreover have "matchVersion example_libs ?c ?r3 0 = ((0::int) < ppm ?c)"
    using matchVersion_range_gate [of example_libs ?r3 "(3, 0, 0)" ?c 0] inside by blast
  moreover have "matchVersion example_libs ?c ?r0 0 = ((0::int) < ppm ?c)"
    using matchVersion_range_gate [of example_libs ?r0 _ ?c 0 "''Version string empty''"] unparsed
    by blast
  ultimately show ?thesis by (simp add: example_ppm)
qed

text \<open>
  The claim as the specification words it fails: version 3.0.0 parses and is inside the
  configured range, and the request is matched.
\<close>

theorem matchVersion_inside_range_counterexample:
  "semver_Make example_libs (Header_Get (Header
      (example_request ''GET'' ''example.com'' (browser_headers ''3.0.0''))) VersionHeader)
     = Inr (3, 0, 0) \<and>
   versionRange (example_checker 1) (3, 0, 0) \<and>
   matchVersion example_libs (example_checker 1)
     (example_request ''GET'' ''example.com'' (browser_headers ''3.0.0'')) 0 = True"
  by (simp add: matchVersion_iff example_version_header example_Make example_range
      example_host example_ppm)

section \<open>The constructor and the filter\<close>

lemma portMeet_iff: "portMeet port ps \<longleftrightarrow> port \<in> set ps"
  by (induction ps) auto

lemma New_fields:
  assumes "New L vr u ports p = Inr c"
  shows "ppm c = go_int (float64 (float64 p * 1000000))" and "rewriteURLString c = u"
    and "tunnelPorts c = (if ports = [] then [''80''] else ports)"
  using assms by (auto simp: New_def oneMillion_def Let_def split: sum.splits)

lemma New_same_but_ppm:
  assumes "New L vr u ports p = Inr c" and "New L vr u ports q = Inr d"
  shows "d = c\<lparr>ppm := go_int (float64 (float64 q * 1000000))\<rparr>"
  using assms by (auto simp: New_def oneMillion_def Let_def split: sum.splits)

lemma New_succeeds:
  assumes "url_Parse L u = Inr U" and "semver_ParseRange L vr = Inr R"
  shows "\<exists>c. New L vr u ports p = Inr c"
  using assms by (simp add: New_def Let_def)

lemma go_int_in_range:
  assumes "0 \<le> x" and "x < 2 ^ 63"
  shows "go_int x = \<lfloor>x\<rfloor>"
proof -
  have "\<lfloor>x\<rfloor> < 2 ^ 63"
    using assms(2) by (simp add: floor_less_iff)
  moreover have "0 \<le> \<lfloor>x\<rfloor>"
    using assms(1) by simp
  ultimately show ?thesis
    using assms(1) by (simp add: go_int_def Let_def)
qed

lemma product_ge_million:
  assumes "1 \<le> p"
  shows "1000000 \<le> float64 (float64 p * 1000000)"
proof -
  have "1 \<le> float64 p"
    using assms by (rule float64_ge_1)
  then have "1000000 \<le> float64 p * 1000000"
    by simp
  then show ?thesis
    by (rule float64_ge_million)
qed

lemma threshold_ge_million:
  assumes "1 \<le> p" and "float64 (float64 p * 1000000) < 2 ^ 63"
  shows "go_int (float64 (float64 p * 1000000)) = \<lfloor>float64 (float64 p * 1000000)\<rfloor>"
    and "1000000 \<le> go_int (float64 (float64 p * 1000000))"
proof -
  let ?x = "float64 (float64 p * 1000000)"
  have ge: "1000000 \<le> ?x"
    using assms(1) by (rule product_ge_million)
  then have "0 \<le> ?x" by linarith
  then show eq: "go_int ?x = \<lfloor>?x\<rfloor>"
    using assms(2) by (rule go_int_in_range)
  have "(1000000::int) \<le> \<lfloor>?x\<rfloor>"
    using ge by (simp add: le_floor_iff)
  with eq show "1000000 \<le> go_int ?x" by simp
qed

lemma example_New:
  "New example_libs ''<3.1.0'' ''http://lantern.io/upgrade'' [] p = Inr (example_checker p)"
  by (simp add: New_def example_libs_def example_checker_def oneMillion_def)

lemma example_parses:
  "url_Parse example_libs ''http://lantern.io/upgrade''
     = Inr \<lparr>Scheme = ''http'', url_Host = ''lantern.io'', url_String = ''http://lantern.io/upgrade''\<rparr>"
  "semver_ParseRange example_libs ''<3.1.0'' = Inr below_3_1_0"
  by (simp_all add: example_libs_def)

lemma Apply_no_match:
  assumes "\<not> matchVersion L c req draw"
  shows "VersionChecker_Apply L c draw st req =
           (Next req, req\<lparr>Header := Header_Del (Header req) VersionHeader\<rparr>, st)"
  using assms
  by (simp add: VersionChecker_Apply_def shouldRedirectOnConnect_def shouldRedirect_def)

lemma Apply_GET_match:
  assumes "matchVersion L c req draw" and "Method req = MethodGet"
    and "HasPrefix (Header_Get (Header req) ''Accept'') ''text/html''"
    and "HasPrefix (Header_Get (Header req) ''User-Agent'') ''Mozilla/''"
  shows "fst (VersionChecker_Apply L c draw st req) =
           Return (Some \<lparr>StatusCode = 302, ProtoMajor = 1, ProtoMinor = 1,
                         resp_Header = [''Location'' \<mapsto> [rewriteURLString c]],
                         Close = True\<rparr>) None"
  using assms
  by (simp add: VersionChecker_Apply_def shouldRedirect_def redirect_def MethodGet_def
      MethodConnect_def StatusFound_def)

lemma Apply_CONNECT_match:
  assumes "matchVersion L c req draw" and "Method req = MethodConnect"
    and "net_SplitHostPort L (Host req) = Inr (h, port)" and "port \<in> set (tunnelPorts c)"
  shows "shouldRedirectOnConnect L c req draw"
    and "VersionChecker_Apply L c draw st req =
           (fst (redirectOnConnect c st req),
            req\<lparr>Header := Header_Del (Header req) VersionHeader\<rparr>,
            snd (redirectOnConnect c st req))"
  using assms
  by (simp_all add: VersionChecker_Apply_def shouldRedirectOnConnect_def portMeet_iff
      split: prod.splits)

lemma redirectOnConnect_hijack:
  assumes "write_error (DownstreamConn st) = None" and "incoming (DownstreamConn st) = Inr r"
  shows "fst (redirectOnConnect c st req) =
           Return (Some \<lparr>StatusCode = 302, ProtoMajor = 1, ProtoMinor = 1,
                         resp_Header = [''Location'' \<mapsto> [rewriteURLString c]],
                         Close = True\<rparr>) None"
    and "written (DownstreamConn (snd (redirectOnConnect c st req))) =
           written (DownstreamConn st) @
             [Written \<lparr>StatusCode = 200, ProtoMajor = 1, ProtoMinor = 1,
                       resp_Header = Map.empty, Close = False\<rparr>]"
  using assms
  by (simp_all add: redirectOnConnect_def Write_def ReadRequest_def redirect_def StatusFound_def
      StatusOK_def)

text \<open>
  C8, as the code has it. With the rate 0 the threshold is 0: \<open>matchVersion\<close> is false
  for every request and every draw from 0 on, and \<open>Apply\<close> always continues with the
  request. With the rate 1 the threshold is 1,000,000 and the sampling step rejects no
  draw below 1,000,000: every request to another host than the rewrite URL's whose
  version is inside the configured range, or missing or unparseable, is matched and,
  when it meets the conditions of its method, redirected. A GET whose Accept starts
  with \<open>text/html\<close> and whose User-Agent starts with \<open>Mozilla/\<close> is answered 302 with
  the rewrite URL as Location. A CONNECT to one of the tunnel ports is acknowledged with
  200 OK on the connection and, when that write succeeds and the tunneled request is
  read, answered 302 with the rewrite URL as Location. The constructor returns a
  checker for both rates whenever the URL and the range parse.
\<close>

theorem sampling_rate_extremes:
  "(New L vr u ports 0 = Inr c \<and> 0 \<le> draw \<longrightarrow>
      matchVersion L c req draw = False \<and>
      fst (VersionChecker_Apply L c draw st req) = Next req) \<and>
   (New L vr u ports 1 = Inr c \<and> draw < oneMillion \<longrightarrow>
      draw < ppm c \<and>
      (Host req \<noteq> url_Host (rewriteURL c) \<and>
       (case semver_Make L (Header_Get (Header req) VersionHeader) of
          Inr v \<Rightarrow> versionRange c v | Inl e \<Rightarrow> True) \<longrightarrow>
         matchVersion L c req draw = True \<and>
         (Method req = MethodGet \<and>
          HasPrefix (Header_Get (Header req) ''Accept'') ''text/html'' \<and>
          HasPrefix (Header_Get (Header req) ''User-Agent'') ''Mozilla/'' \<longrightarrow>
            fst (VersionChecker_Apply L c draw st req) =
              Return (Some \<lparr>StatusCode = 302, ProtoMajor = 1, ProtoMinor = 1,
                            resp_Header = [''Location'' \<mapsto> [u]], Close = True\<rparr>) None) \<and>
         (Method req = MethodConnect \<and>
          net_SplitHostPort L (Host req) = Inr (h, port) \<and> port \<in> set (tunnelPorts c) \<and>
          write_error (DownstreamConn st) = None \<and> incoming (DownstreamConn st) = Inr r \<longrightarrow>
            shouldRedirectOnConnect L c req draw = True \<and>
            fst (VersionChecker_Apply L c draw st req) =
              Return (Some \<lparr>StatusCode = 302, ProtoMajor = 1, ProtoMinor = 1,
                            resp_Header = [''Location'' \<mapsto> [u]], Close = True\<rparr>) None \<and>
            written (DownstreamConn (snd (snd (VersionChecker_Apply L c draw st req)))) =
              written (DownstreamConn st) @
                [Written \<lparr>StatusCode = 200, ProtoMajor = 1, ProtoMinor = 1,
                          resp_Header = Map.empty, Close = False\<rparr>]))) \<and>
   (url_Parse L u = Inr U \<and> semver_ParseRange L vr = Inr R \<longrightarrow>
      (\<exists>c0 c1. New L vr u ports 0 = Inr c0 \<and> New L vr u ports 1 = Inr c1))"
proof (intro conjI impI)
  assume a: "New L vr u ports 0 = Inr c \<and> 0 \<le> draw"
  then have "ppm c = 0"
    using New_fields(1) [of L vr u ports 0 c] by (simp add: float64_values go_int_def)
  with a show nomatch: "matchVersion L c req draw = False"
    by (simp add: matchVersion_iff)
  then show "fst (VersionChecker_Apply L c draw st req) = Next req"
    by (simp add: Apply_no_match)
next
  assume a: "New L vr u ports 1 = Inr c \<and> draw < oneMillion"
  then have p: "ppm c = 1000000" and loc: "rewriteURLString c = u"
    using New_fields(1,2) [of L vr u ports 1 c] by (simp_all add: float64_values go_int_def)
  from a p show d: "draw < ppm c"
    by (simp add: oneMillion_def)
  assume b: "Host req \<noteq> url_Host (rewriteURL c) \<and>
    (case semver_Make L (Header_Get (Header req) VersionHeader) of
       Inr v \<Rightarrow> versionRange c v | Inl e \<Rightarrow> True)"
  with d show m: "matchVersion L c req draw = True"
    by (simp add: matchVersion_iff)
  {
    assume "Method req = MethodGet \<and>
      HasPrefix (Header_Get (Header req) ''Accept'') ''text/html'' \<and>
      HasPrefix (Header_Get (Header req) ''User-Agent'') ''Mozilla/''"
    with m loc show "fst (VersionChecker_Apply L c draw st req) =
        Return (Some \<lparr>StatusCode = 302, ProtoMajor = 1, ProtoMinor = 1,
                      resp_Header = [''Location'' \<mapsto> [u]], Close = True\<rparr>) None"
      using Apply_GET_match [of L c req draw st] by simp
  }
  {
    assume g: "Method req = MethodConnect \<and>
      net_SplitHostPort L (Host req) = Inr (h, port) \<and> port \<in> set (tunnelPorts c) \<and>
      write_error (DownstreamConn st) = None \<and> incoming (DownstreamConn st) = Inr r"
    with m show "shouldRedirectOnConnect L c req draw = True"
      using Apply_CONNECT_match(1) [of L c req draw h port] by simp
    from g m have ap: "VersionChecker_Apply L c draw st req =
           (fst (redirectOnConnect c st req),
            req\<lparr>Header := Header_Del (Header req) VersionHeader\<rparr>,
            snd (redirectOnConnect c st req))"
      using Apply_CONNECT_match(2) [of L c req draw h port st] by simp
    from g have w: "write_error (DownstreamConn st) = None"
      and i: "incoming (DownstreamConn st) = Inr r"
      by simp_all
    show "fst (VersionChecker_Apply L c draw st req) =
        Return (Some \<lparr>StatusCode = 302, ProtoMajor = 1, ProtoMinor = 1,
                      resp_Header = [''Location'' \<mapsto> [u]], Close = True\<rparr>) None"
      using redirectOnConnect_hijack(1) [OF w i, of c req] loc by (simp add: ap)
    show "written (DownstreamConn (snd (snd (VersionChecker_Apply L c draw st req)))) =
        written (DownstreamConn st) @
          [Written \<lparr>StatusCode = 200, ProtoMajor = 1, ProtoMinor = 1,
                    resp_Header = Map.empty, Close = False\<rparr>]"
      using redirectOnConnect_hijack(2) [OF w i, of c req] by (simp add: ap)
  }
next
  assume "url_Parse L u = Inr U \<and> semver_ParseRange L vr = Inr R"
  then show "\<exists>c0 c1. New L vr u ports 0 = Inr c0 \<and> New L vr u ports 1 = Inr c1"
    using New_succeeds [of L u U vr R ports 0] New_succeeds [of L u U vr R ports 1] by blast
qed

lemma example_browser:
  "HasPrefix (Header_Get (Header (example_request m h (browser_headers v))) ''Accept'') ''text/html''"
  "HasPrefix (Header_Get (Header (example_request m h (browser_headers v))) ''User-Agent'') ''Mozilla/''"
  by (simp_all add: example_request_def browser_headers_def Header_Get_def HasPrefix_def)

lemma example_split:
  "net_SplitHostPort example_libs ''example.com:80'' = Inr (''example.com'', ''80'')"
  "net_SplitHostPort example_libs ''lantern.io:80'' = Inr (''lantern.io'', ''80'')"
  "tunnelPorts (example_checker p) = [''80'']"
  by (simp_all add: example_libs_def example_checker_def)

text \<open>
  The example configuration, as \<open>New\<close> returns it at rate 0 and at rate 1, draw 0: a
  browser's GET with version 3.0.0 continues at rate 0 and is answered 302 at rate 1;
  a CONNECT to \<open>example.com:80\<close> with version 3.0.0, on a connection where the write
  succeeds and a tunneled GET is read, is answered 302 at rate 1 after the 200 OK.
\<close>

theorem sampling_rate_extremes_witness:
  "(\<exists>c0 c1.
      New example_libs ''<3.1.0'' ''http://lantern.io/upgrade'' [] 0 = Inr c0 \<and>
      New example_libs ''<3.1.0'' ''http://lantern.io/upgrade'' [] 1 = Inr c1 \<and>
      fst (VersionChecker_Apply example_libs c0 0 (example_state (Inl ''EOF''))
            (example_request ''GET'' ''example.com'' (browser_headers ''3.0.0'')))
        = Next (example_request ''GET'' ''example.com'' (browser_headers ''3.0.0'')) \<and>
      fst (VersionChecker_Apply example_libs c1 0 (example_state (Inl ''EOF''))
            (example_request ''GET'' ''example.com'' (browser_headers ''3.0.0'')))
        = Return (Some \<lparr>StatusCode = 302, ProtoMajor = 1, ProtoMinor = 1,
                        resp_Header = [''Location'' \<mapsto> [''http://lantern.io/upgrade'']],
                        Close = True\<rparr>) None \<and>
      shouldRedirectOnConnect example_libs c1
        (example_request ''CONNECT'' ''example.com:80'' (browser_headers ''3.0.0'')) 0 = True \<and>
      fst (VersionChecker_Apply example_libs c1 0
             (example_state (Inr (example_request ''GET'' ''example.com'' Map.empty)))
             (example_request ''CONNECT'' ''example.com:80'' (browser_headers ''3.0.0'')))
        = Return (Some \<lparr>StatusCode = 302, ProtoMajor = 1, ProtoMinor = 1,
                        resp_Header = [''Location'' \<mapsto> [''http://lantern.io/upgrade'']],
                        Close = True\<rparr>) None \<and>
      written (DownstreamConn (snd (snd (VersionChecker_Apply example_libs c1 0
             (example_state (Inr (example_request ''GET'' ''example.com'' Map.empty)))
             (example_request ''CONNECT'' ''example.com:80'' (browser_headers ''3.0.0''))))))
        = [Written \<lparr>StatusCode = 200, ProtoMajor = 1, ProtoMinor = 1,
                     resp_Header = Map.empty, Close = False\<rparr>])"
proof -
  let ?g = "example_request ''GET'' ''example.com'' (browser_headers ''3.0.0'')"
  let ?k = "example_request ''CONNECT'' ''example.com:80'' (browser_headers ''3.0.0'')"
  let ?st = "example_state (Inl ''EOF'')"
  let ?tunnel = "example_state (Inr (example_request ''GET'' ''example.com'' Map.empty))"
  let ?c0 = "example_checker 0 :: (nat \<times> nat \<times> nat) VersionChecker"
  let ?c1 = "example_checker 1 :: (nat \<times> nat \<times> nat) VersionChecker"
  have zero: "New example_libs ''<3.1.0'' ''http://lantern.io/upgrade'' [] 0 = Inr ?c0
      \<and> (0::int) \<le> 0"
    by (simp add: example_New)
  have one: "New example_libs ''<3.1.0'' ''http://lantern.io/upgrade'' [] 1 = Inr ?c1
      \<and> (0::int) < oneMillion"
    by (simp add: example_New oneMillion_def)
  have cand_g: "Host ?g \<noteq> url_Host (rewriteURL ?c1) \<and>
      (case semver_Make example_libs (Header_Get (Header ?g) VersionHeader) of
         Inr v \<Rightarrow> versionRange ?c1 v | Inl e \<Rightarrow> True)"
    by (simp add: example_host example_version_header example_Make example_range)
  have cand_k: "Host ?k \<noteq> url_Host (rewriteURL ?c1) \<and>
      (case semver_Make example_libs (Header_Get (Header ?k) VersionHeader) of
         Inr v \<Rightarrow> versionRange ?c1 v | Inl e \<Rightarrow> True)"
    by (simp add: example_host example_version_header example_Make example_range)
  have get: "Method ?g = MethodGet \<and>
      HasPrefix (Header_Get (Header ?g) ''Accept'') ''text/html'' \<and>
      HasPrefix (Header_Get (Header ?g) ''User-Agent'') ''Mozilla/''"
    by (simp add: example_host example_browser MethodGet_def)
  have connect: "Method ?k = MethodConnect \<and>
      net_SplitHostPort example_libs (Host ?k) = Inr (''example.com'', ''80'') \<and>
      ''80'' \<in> set (tunnelPorts ?c1) \<and>
      write_error (DownstreamConn ?tunnel) = None \<and>
      incoming (DownstreamConn ?tunnel) = Inr (example_request ''GET'' ''example.com'' Map.empty)"
    by (simp add: example_host example_split MethodConnect_def example_state_def example_conn_def)
  have w0: "written (DownstreamConn ?tunnel) = []"
    by (simp add: example_state_def example_conn_def)
  have "fst (VersionChecker_Apply example_libs ?c0 0 ?st ?g) = Next ?g"
    using sampling_rate_extremes [where L = example_libs and c = ?c0
        and draw = 0 and req = ?g and st = ?st] zero
    by blast
  moreover have "fst (VersionChecker_Apply example_libs ?c1 0 ?st ?g)
     = Return (Some \<lparr>StatusCode = 302, ProtoMajor = 1, ProtoMinor = 1,
                     resp_Header = [''Location'' \<mapsto> [''http://lantern.io/upgrade'']],
                     Close = True\<rparr>) None"
    using sampling_rate_extremes [where L = example_libs and c = ?c1
        and draw = 0 and req = ?g and st = ?st] one cand_g get
    by blast
  moreover have "shouldRedirectOnConnect example_libs ?c1 ?k 0 = True \<and>
      fst (VersionChecker_Apply example_libs ?c1 0 ?tunnel ?k)
        = Return (Some \<lparr>StatusCode = 302, ProtoMajor = 1, ProtoMinor = 1,
                        resp_Header = [''Location'' \<mapsto> [''http://lantern.io/upgrade'']],
                        Close = True\<rparr>) None \<and>
      written (DownstreamConn (snd (snd (VersionChecker_Apply example_libs ?c1 0 ?tunnel ?k))))
        = written (DownstreamConn ?tunnel) @
            [Written \<lparr>StatusCode = 200, ProtoMajor = 1, ProtoMinor = 1,
                      resp_Header = Map.empty, Close = False\<rparr>]"
    using sampling_rate_extremes [where L = example_libs and c = ?c1
        and draw = 0 and req = ?k and st = ?tunnel and h = "''example.com''" and port = "''80''"
        and r = "example_request ''GET'' ''example.com'' Map.empty"]
      one cand_k connect
    by blast
  ultimately show ?thesis
    using zero one w0 by (intro exI [of _ ?c0] exI [of _ ?c1]) simp
qed

text \<open>
  The claim as the specification words it fails at rate 1 in three ways. The version
  4.0.0 parses and is outside the configured range, the request is a browser's GET to
  another host, and it is not redirected. A browser's GET without a version, addressed
  to the rewrite URL's host, is not redirected. And a CONNECT to port 80 without a
  version, on a connection where the write of the 200 OK fails, ends with the error of
  the write and no redirect.
\<close>

theorem full_rate_outside_range_counterexample:
  "New example_libs ''<3.1.0'' ''http://lantern.io/upgrade'' [] 1 = Inr (example_checker 1) \<and>
   semver_Make example_libs (Header_Get (Header
      (example_request ''GET'' ''example.com'' (browser_headers ''4.0.0''))) VersionHeader)
     = Inr (4, 0, 0) \<and>
   \<not> versionRange (example_checker 1) (4, 0, 0) \<and>
   Method (example_request ''GET'' ''example.com'' (browser_headers ''4.0.0'')) = MethodGet \<and>
   HasPrefix (Header_Get (Header (example_request ''GET'' ''example.com''
      (browser_headers ''4.0.0''))) ''Accept'') ''text/html'' \<and>
   HasPrefix (Header_Get (Header (example_request ''GET'' ''example.com''
      (browser_headers ''4.0.0''))) ''User-Agent'') ''Mozilla/'' \<and>
   fst (VersionChecker_Apply example_libs (example_checker 1) 0 (example_state (Inl ''EOF''))
         (example_request ''GET'' ''example.com'' (browser_headers ''4.0.0'')))
     = Next (example_request ''GET'' ''example.com'' (browser_headers ''4.0.0'')) \<and>
   semver_Make example_libs (Header_Get (Header
      (example_request ''GET'' ''lantern.io'' (browser_headers []))) VersionHeader)
     = Inl ''Version string empty'' \<and>
   fst (VersionChecker_Apply example_libs (example_checker 1) 0 (example_state (Inl ''EOF''))
         (example_request ''GET'' ''lantern.io'' (browser_headers [])))
     = Next (example_request ''GET'' ''lantern.io'' (browser_headers [])) \<and>
   fst (VersionChecker_Apply example_libs (example_checker 1) 0 (broken_state (Inl ''EOF''))
         (example_request ''CONNECT'' ''example.com:80'' (browser_headers [])))
     = Return None (Some ''broken pipe'')"
proof -
  let ?k = "example_request ''CONNECT'' ''example.com:80'' (browser_headers [])"
  have m: "matchVersion example_libs (example_checker 1) ?k 0"
    by (simp add: matchVersion_iff example_host example_ppm example_version_header example_Make)
  have "fst (redirectOnConnect (example_checker 1) (broken_state (Inl ''EOF'')) ?k)
      = Return None (Some ''broken pipe'')"
    by (simp add: redirectOnConnect_def Write_def broken_state_def example_conn_def)
  moreover have "VersionChecker_Apply example_libs (example_checker 1) 0 (broken_state (Inl ''EOF'')) ?k
      = (fst (redirectOnConnect (example_checker 1) (broken_state (Inl ''EOF'')) ?k),
         ?k\<lparr>Header := Header_Del (Header ?k) VersionHeader\<rparr>,
         snd (redirectOnConnect (example_checker 1) (broken_state (Inl ''EOF'')) ?k))"
    using m by (intro Apply_CONNECT_match(2) [where h = "''example.com''" and port = "''80''"])
      (simp_all add: example_host example_split MethodConnect_def)
  ultimately have broken:
    "fst (VersionChecker_Apply example_libs (example_checker 1) 0 (broken_state (Inl ''EOF'')) ?k)
      = Return None (Some ''broken pipe'')"
    by simp
  show ?thesis
    using broken
    by (simp add: example_New example_version_header example_Make example_range example_host
        example_browser MethodGet_def Apply_no_match matchVersion_iff)
qed

text \<open>
  C9, as the code has it. The constructor stores \<open>int(percentage * oneMillion)\<close> as the
  threshold, the \<open>float64\<close> product without its fraction, so the percentage is a
  fraction of 1. Whenever the URL and the range parse, \<open>New\<close> returns a checker; for
  every percentage from 1.0 on whose product with 1,000,000 is below \<open>2^63\<close>, the
  threshold is at least 1,000,000, the sampling step passes every draw below 1,000,000,
  and \<open>matchVersion\<close> answers as it does for the percentage 1.0.
\<close>

theorem percentage_is_a_fraction:
  assumes "url_Parse L u = Inr U" and "semver_ParseRange L vr = Inr R"
    and "1 \<le> percentage" and "float64 (float64 percentage * 1000000) < 2 ^ 63"
  shows "\<exists>c c1. New L vr u ports percentage = Inr c \<and> New L vr u ports 1 = Inr c1 \<and>
           ppm c = \<lfloor>float64 (float64 percentage * 1000000)\<rfloor> \<and>
           oneMillion \<le> ppm c \<and>
           (\<forall>draw. draw < oneMillion \<longrightarrow> \<not> draw \<ge> ppm c) \<and>
           (\<forall>req draw. draw < oneMillion \<longrightarrow>
              matchVersion L c req draw = matchVersion L c1 req draw)"
proof -
  from New_succeeds [OF assms(1,2)] obtain c where c: "New L vr u ports percentage = Inr c"
    by blast
  from New_succeeds [OF assms(1,2)] obtain c1 where c1: "New L vr u ports 1 = Inr c1"
    by blast
  have p: "ppm c = go_int (float64 (float64 percentage * 1000000))"
    using c by (rule New_fields(1))
  have fl: "ppm c = \<lfloor>float64 (float64 percentage * 1000000)\<rfloor>"
    using p threshold_ge_million(1) [OF assms(3,4)] by simp
  have ge: "oneMillion \<le> ppm c"
    using p threshold_ge_million(2) [OF assms(3,4)] by (simp add: oneMillion_def)
  have "c1 = c\<lparr>ppm := go_int (float64 (float64 1 * 1000000))\<rparr>"
    using New_same_but_ppm [OF c c1] by simp
  then have one: "ppm c1 = 1000000" "rewriteURL c1 = rewriteURL c"
    "\<And>v. versionRange c1 v = versionRange c v"
    by (simp_all add: float64_values go_int_def)
  have same: "matchVersion L c req draw = matchVersion L c1 req draw"
    if "draw < oneMillion" for req draw
    using ge that one by (auto simp: matchVersion_iff oneMillion_def split: sum.splits)
  from c c1 fl ge same show ?thesis by auto
qed

text \<open>
  The percentage 5 at the example configuration: the threshold is 5,000,000, the draw
  999,999 passes, and a request is matched as at the percentage 1.
\<close>

theorem percentage_is_a_fraction_witness:
  "\<exists>c c1. New example_libs ''<3.1.0'' ''http://lantern.io/upgrade'' [] 5 = Inr c \<and>
          New example_libs ''<3.1.0'' ''http://lantern.io/upgrade'' [] 1 = Inr c1 \<and>
          ppm c = 5000000 \<and>
          oneMillion \<le> ppm c \<and>
          \<not> (999999::int) \<ge> ppm c \<and>
          matchVersion example_libs c
            (example_request ''GET'' ''example.com'' (browser_headers ''3.0.0'')) 999999
          = matchVersion example_libs c1
            (example_request ''GET'' ''example.com'' (browser_headers ''3.0.0'')) 999999"
proof -
  have five: "(1::real) \<le> 5" by simp
  have fits: "float64 (float64 5 * 1000000) < 2 ^ 63"
    by (simp add: float64_values)
  have d: "(999999::int) < oneMillion"
    by (simp add: oneMillion_def)
  from percentage_is_a_fraction [OF example_parses five fits, of "[]"] d
  show ?thesis
    by (auto simp: float64_values)
qed

text \<open>
  Without the bound the claim fails, for a large percentage. At 10,000,000,000,000 the
  product is \<open>10^19\<close>, which an \<open>int\<close> does not hold: the threshold is \<open>-2^63\<close>, the
  sampling step rejects the draw 0, and the request, whose version is inside the range,
  is not matched.
\<close>

theorem large_percentage_counterexample:
  "(1::real) \<le> 10000000000000 \<and>
   New example_libs ''<3.1.0'' ''http://lantern.io/upgrade'' [] 10000000000000
     = Inr (example_checker 10000000000000) \<and>
   ppm (example_checker 10000000000000) = - 9223372036854775808 \<and>
   \<not> oneMillion \<le> ppm (example_checker 10000000000000) \<and>
   (0::int) \<ge> ppm (example_checker 10000000000000) \<and>
   matchVersion example_libs (example_checker 10000000000000)
     (example_request ''GET'' ''example.com'' (browser_headers ''3.0.0'')) 0 = False"
proof -
  have p: "ppm (example_checker 10000000000000) = - 9223372036854775808"
    by (simp add: example_checker_def float64_values go_int_def)
  then show ?thesis
    by (simp add: example_New oneMillion_def matchVersion_iff)
qed

section \<open>The request handed to the rest of the chain\<close>

lemma redirect_not_Next: "fst (redirect c st req) \<noteq> Next r"
  by (simp add: redirect_def)

lemma redirectOnConnect_not_Next: "fst (redirectOnConnect c st req) \<noteq> Next r"
  by (simp add: redirectOnConnect_def Write_def ReadRequest_def redirect_def Let_def
      split: option.splits sum.splits prod.splits)

lemma Apply_Next_is_request:
  assumes "fst (VersionChecker_Apply L c draw st req) = Next r"
  shows "r = req"
  using assms redirect_not_Next [of c st req r] redirectOnConnect_not_Next [of c st req r]
  by (simp add: VersionChecker_Apply_def split: if_splits prod.splits)

lemma Apply_deferred_Del:
  "Header (fst (snd (VersionChecker_Apply L c draw st req))) VersionHeader = None"
  by (simp add: VersionChecker_Apply_def Header_Del_def split: prod.splits)

text \<open>
  C5. The deferred delete runs when \<open>Apply\<close> returns, so the request is without the
  header afterwards on every path (\<open>Apply_deferred_Del\<close>); but \<open>next\<close> is called before,
  on the request as it came in (\<open>Apply_Next_is_request\<close>). Here a POST with the client
  version 3.0.0: the request handed to the rest of the chain still has the header.
\<close>

theorem Apply_hands_version_header_on:
  "VersionChecker_Apply example_libs (example_checker 1) 0 (example_state (Inl ''EOF''))
     (example_request ''POST'' ''example.com'' (browser_headers ''3.0.0''))
   = (Next (example_request ''POST'' ''example.com'' (browser_headers ''3.0.0'')),
      (example_request ''POST'' ''example.com'' (browser_headers ''3.0.0''))
        \<lparr>Header := Header_Del (browser_headers ''3.0.0'') VersionHeader\<rparr>,
      example_state (Inl ''EOF'')) \<and>
   Header (example_request ''POST'' ''example.com'' (browser_headers ''3.0.0'')) VersionHeader
     = Some [''3.0.0'']"
  by (simp add: VersionChecker_Apply_def MethodConnect_def MethodGet_def example_request_def
      browser_headers_def VersionHeader_def)

section \<open>Requests to the rewrite URL's host\<close>

lemma matchVersion_same_Host:
  "Host req = url_Host (rewriteURL c) \<Longrightarrow> matchVersion L c req draw = False"
  by (simp add: matchVersion_def)

text \<open>
  C6. The guard compares the whole \<open>Host\<close> of the request with the host of the rewrite
  URL. The \<open>Host\<close> of a CONNECT is \<open>host:port\<close>: a CONNECT to port 80 of the rewrite
  URL's host is matched and redirected.
\<close>

theorem connect_to_rewrite_host_is_redirected:
  "Host (example_request ''CONNECT'' ''lantern.io:80'' Map.empty) = ''lantern.io:80'' \<and>
   net_SplitHostPort example_libs ''lantern.io:80'' = Inr (''lantern.io'', ''80'') \<and>
   url_Host (rewriteURL (example_checker 1)) = ''lantern.io'' \<and>
   matchVersion example_libs (example_checker 1)
     (example_request ''CONNECT'' ''lantern.io:80'' Map.empty) 0 = True \<and>
   shouldRedirectOnConnect example_libs (example_checker 1)
     (example_request ''CONNECT'' ''lantern.io:80'' Map.empty) 0 = True \<and>
   fst (VersionChecker_Apply example_libs (example_checker 1) 0
          (example_state (Inr (example_request ''GET'' ''lantern.io'' Map.empty)))
          (example_request ''CONNECT'' ''lantern.io:80'' Map.empty))
     = Return (Some \<lparr>StatusCode = 302, ProtoMajor = 1, ProtoMinor = 1,
                     resp_Header = [''Location'' \<mapsto> [''http://lantern.io/upgrade'']],
                     Close = True\<rparr>) None"
proof -
  let ?k = "example_request ''CONNECT'' ''lantern.io:80'' Map.empty"
  have m: "matchVersion example_libs (example_checker 1) ?k 0 = True"
    by (simp add: matchVersion_iff example_host example_ppm)
       (simp add: example_request_def Header_Get_def example_Make)
  have s: "shouldRedirectOnConnect example_libs (example_checker 1) ?k 0 = True"
    using m by (simp add: shouldRedirectOnConnect_def example_host example_split)
  have "fst (redirectOnConnect (example_checker 1)
          (example_state (Inr (example_request ''GET'' ''lantern.io'' Map.empty))) ?k)
     = Return (Some \<lparr>StatusCode = 302, ProtoMajor = 1, ProtoMinor = 1,
                     resp_Header = [''Location'' \<mapsto> [''http://lantern.io/upgrade'']],
                     Close = True\<rparr>) None"
    by (simp add: redirectOnConnect_def Write_def ReadRequest_def redirect_def example_state_def
        example_conn_def StatusFound_def example_checker_def)
  with s m show ?thesis
    by (auto simp: VersionChecker_Apply_def example_host example_split MethodConnect_def
        split: prod.splits)
qed

section \<open>The hijack of a CONNECT\<close>

lemma redirectOnConnect_read_fails:
  assumes "write_error (DownstreamConn st) = None" and "incoming (DownstreamConn st) = Inl e"
  shows "redirectOnConnect c st req =
     (Panic ''invalid memory address or nil pointer dereference'',
      st\<lparr>DownstreamConn := (DownstreamConn st)\<lparr>written := written (DownstreamConn st) @
            [Written \<lparr>StatusCode = 200, ProtoMajor = 1, ProtoMinor = 1,
                      resp_Header = Map.empty, Close = False\<rparr>]\<rparr>,
         logs := logs st @ [Error (''Fail to read tunneled request before redirecting: '' @ e)]\<rparr>)"
  using assms by (simp add: redirectOnConnect_def Write_def ReadRequest_def StatusOK_def)

lemma redirectOnConnect_read_succeeds:
  assumes "write_error (DownstreamConn st) = None" and "incoming (DownstreamConn st) = Inr r"
  shows "fst (redirectOnConnect c st req) =
     Return (Some \<lparr>StatusCode = 302, ProtoMajor = 1, ProtoMinor = 1,
                   resp_Header = [''Location'' \<mapsto> [rewriteURLString c]], Close = True\<rparr>) None"
  using assms
  by (simp add: redirectOnConnect_def Write_def ReadRequest_def redirect_def StatusFound_def)

text \<open>
  C1. When the read of the tunneled request fails, \<open>http.ReadRequest\<close> returns a nil
  request; the error is logged, and the next statement reads \<open>req.Body\<close> of the nil
  request. Here the client closes the tunnel after the 200 OK (the read ends with EOF):
  the 200 OK is on the wire, the error is logged, no 302 is produced, and \<open>Apply\<close> ends
  in a panic.
\<close>

theorem redirectOnConnect_failed_read_panics:
  "redirectOnConnect (example_checker 1) (example_state (Inl ''EOF''))
     (example_request ''CONNECT'' ''example.com:80'' Map.empty)
   = (Panic ''invalid memory address or nil pointer dereference'',
      \<lparr>DownstreamConn =
         \<lparr>written = [Written \<lparr>StatusCode = 200, ProtoMajor = 1, ProtoMinor = 1,
                               resp_Header = Map.empty, Close = False\<rparr>],
          closed = False, write_error = None, incoming = Inl ''EOF''\<rparr>,
       logs = [Error ''Fail to read tunneled request before redirecting: EOF''],
       mimic_observed = []\<rparr>) \<and>
   fst (VersionChecker_Apply example_libs (example_checker 1) 0 (example_state (Inl ''EOF''))
          (example_request ''CONNECT'' ''example.com:80'' Map.empty))
     = Panic ''invalid memory address or nil pointer dereference''"
proof -
  let ?k = "example_request ''CONNECT'' ''example.com:80'' Map.empty"
  have r: "redirectOnConnect (example_checker 1) (example_state (Inl ''EOF'')) ?k
   = (Panic ''invalid memory address or nil pointer dereference'',
      \<lparr>DownstreamConn =
         \<lparr>written = [Written \<lparr>StatusCode = 200, ProtoMajor = 1, ProtoMinor = 1,
                               resp_Header = Map.empty, Close = False\<rparr>],
          closed = False, write_error = None, incoming = Inl ''EOF''\<rparr>,
       logs = [Error ''Fail to read tunneled request before redirecting: EOF''],
       mimic_observed = []\<rparr>)"
    by (simp add: redirectOnConnect_def Write_def ReadRequest_def StatusOK_def
        example_state_def example_conn_def)
  have m: "matchVersion example_libs (example_checker 1) ?k 0 = True"
    by (simp add: matchVersion_iff example_host example_ppm)
       (simp add: example_request_def Header_Get_def example_Make)
  have s: "shouldRedirectOnConnect example_libs (example_checker 1) ?k 0 = True"
    using m by (simp add: shouldRedirectOnConnect_def example_host example_split)
  from r s show ?thesis
    by (simp add: VersionChecker_Apply_def example_host MethodConnect_def)
qed

section \<open>The token filter\<close>

lemma tokenMatched_iff: "tokenMatched tok ts \<longleftrightarrow> tok \<in> set ts"
  by (induction ts) auto

lemma tokenFilter_first_value_empty:
  assumes "token f \<noteq> []" and "Header req th = Some ([] # ts)"
  shows "fst (tokenFilter_Apply th f st req) = Return None None"
  using assms by (simp add: tokenFilter_Apply_def mimicApache_def Let_def)

text \<open>
  C4, as the code has it. The filter first tests whether the first value of the token
  header is empty, and mimics if it is. With a non-empty secret, a request whose token
  header has a non-empty first value and at least one value equal to the secret, at any
  position and whatever the other values, continues with the token header removed, and
  the observation "not mimicking" is recorded.
\<close>

theorem tokenFilter_match_continues:
  assumes "token f \<noteq> []"
    and "Header req th = Some (before @ token f # after)"
    and "hd (before @ token f # after) \<noteq> []"
  shows "tokenFilter_Apply th f st req =
           (Next (req\<lparr>Header := (Header req)(th := None)\<rparr>),
            st\<lparr>mimic_observed := mimic_observed st @ [False]\<rparr>)"
proof (cases "before @ token f # after")
  case Nil
  then show ?thesis by simp
next
  case (Cons t0 ts)
  then have "tokenMatched (token f) (t0 # ts)"
    by (metis in_set_conv_decomp tokenMatched_iff)
  moreover have "t0 \<noteq> []"
    using assms(3) Cons by simp
  ultimately show ?thesis
    using assms(1,2) Cons by (simp add: tokenFilter_Apply_def Header_Del_def Let_def)
qed

text \<open>The secret \<open>s3cret\<close> as the second of three values.\<close>

theorem tokenFilter_match_continues_witness:
  "tokenFilter_Apply ''X-Lantern-Auth-Token'' \<lparr>token = ''s3cret''\<rparr> (example_state (Inl ''EOF''))
     (example_request ''GET'' ''example.com''
        [''X-Lantern-Auth-Token'' \<mapsto> [''wrong'', ''s3cret'', []]])
   = (Next (example_request ''GET'' ''example.com'' Map.empty),
      \<lparr>DownstreamConn = example_conn (Inl ''EOF''), logs = [], mimic_observed = [False]\<rparr>)"
proof -
  let ?f = "\<lparr>token = ''s3cret''\<rparr>"
  let ?req = "example_request ''GET'' ''example.com''
        [''X-Lantern-Auth-Token'' \<mapsto> [''wrong'', ''s3cret'', []]]"
  have secret: "token ?f \<noteq> []" by simp
  have hdr: "Header ?req ''X-Lantern-Auth-Token'' = Some ([''wrong''] @ token ?f # [[]])"
    by (simp add: example_request_def)
  have first: "hd ([''wrong''] @ token ?f # [[]]) \<noteq> []" by simp
  show ?thesis
    using tokenFilter_match_continues [OF secret hdr first, of "example_state (Inl ''EOF'')"]
    by (simp add: example_request_def example_state_def)
qed

text \<open>
  The claim as the specification words it fails: the secret is a value of the header,
  after an empty first value, and the request is answered by the mimicry.
\<close>

theorem tokenFilter_empty_first_value_counterexample:
  "token \<lparr>token = ''s3cret''\<rparr> \<noteq> [] \<and>
   Header (example_request ''GET'' ''example.com''
        [''X-Lantern-Auth-Token'' \<mapsto> [[], ''s3cret'']]) ''X-Lantern-Auth-Token''
     = Some [[], ''s3cret''] \<and>
   ''s3cret'' \<in> set [[], ''s3cret''] \<and>
   tokenFilter_Apply ''X-Lantern-Auth-Token'' \<lparr>token = ''s3cret''\<rparr> (example_state (Inl ''EOF''))
     (example_request ''GET'' ''example.com''
        [''X-Lantern-Auth-Token'' \<mapsto> [[], ''s3cret'']])
   = (Return None None,
      \<lparr>DownstreamConn = \<lparr>written = [ApachePage ''/''], closed = True, write_error = None,
                         incoming = Inl ''EOF''\<rparr>,
       logs = [Error ''No token provided, mimicking apache''],
       mimic_observed = [True]\<rparr>)"
  by (simp add: tokenFilter_Apply_def mimicApache_def example_request_def example_state_def
      example_conn_def Let_def)

section \<open>The port admission filter\<close>

lemma Reply_distinct:
  "Reply StatusBadRequest \<noteq> Reply StatusForbidden"
  "Reply StatusBadRequest \<noteq> Next req"
  "Reply StatusForbidden \<noteq> Next req"
  by (simp_all add: Reply_def StatusBadRequest_def StatusForbidden_def)

lemma target_port_None_iff:
  "target_port t = None \<longleftrightarrow>
     split_target t = None \<or>
     (\<exists>h p. split_target t = Some (h, p) \<and> (p = [] \<or> parse_integer p = None))"
  by (auto simp: target_port_def split: option.splits)

lemma split_target_None_iff: "split_target t = None \<longleftrightarrow> CHR '':'' \<notin> set t"
  by (simp add: split_target_def)

lemma split_target_Some:
  assumes "split_target t = Some (h, p)"
  shows "t = h @ '':'' @ p" and "CHR '':'' \<notin> set p"
proof -
  let ?P = "\<lambda>ch. ch \<noteq> CHR '':''"
  from assms have c: "CHR '':'' \<in> set t"
    and h: "h = rev (drop 1 (dropWhile ?P (rev t)))"
    and p: "p = rev (takeWhile ?P (rev t))"
    by (auto simp: split_target_def split: if_splits)
  from c have "dropWhile ?P (rev t) \<noteq> []"
    by (simp add: dropWhile_eq_Nil_conv) 
  then have "hd (dropWhile ?P (rev t)) = CHR '':''"
    using hd_dropWhile [of ?P "rev t"] by simp
  with \<open>dropWhile ?P (rev t) \<noteq> []\<close>
  have d: "dropWhile ?P (rev t) = CHR '':'' # drop 1 (dropWhile ?P (rev t))"
    by (cases "dropWhile ?P (rev t)") simp_all
  have "rev t = takeWhile ?P (rev t) @ dropWhile ?P (rev t)"
    by simp
  then have "rev t = rev p @ CHR '':'' # rev h"
    using d h p by simp
  then have "rev (rev t) = rev (rev p @ CHR '':'' # rev h)"
    by simp
  then show "t = h @ '':'' @ p" by simp
  show "CHR '':'' \<notin> set p"
    using p set_takeWhileD [of "CHR '':''" ?P "rev t"] by auto
qed

lemma split_target_eq:
  assumes "CHR '':'' \<notin> set p"
  shows "split_target (h @ '':'' @ p) = Some (h, p)"
proof -
  let ?P = "\<lambda>ch. ch \<noteq> CHR '':''"
  have r: "rev (h @ '':'' @ p) = rev p @ CHR '':'' # rev h"
    by simp
  have t: "takeWhile ?P (rev p @ CHR '':'' # rev h) = rev p"
    by (subst takeWhile_append2) (use assms in auto)
  have d: "dropWhile ?P (rev p @ CHR '':'' # rev h) = CHR '':'' # rev h"
    by (subst dropWhile_append2) (use assms in auto)
  show ?thesis
    unfolding split_target_def r t d by simp
qed

lemma split_target_iff:
  "split_target t = Some (h, p) \<longleftrightarrow> t = h @ '':'' @ p \<and> CHR '':'' \<notin> set p"
  using split_target_Some [of t h p] split_target_eq [of p h] by blast

lemma parse_integer_Nil: "parse_integer [] = None"
  by (simp add: parse_integer_def)

lemma target_port_Some_iff:
  "target_port t = Some port \<longleftrightarrow>
     (\<exists>h p. split_target t = Some (h, p) \<and> parse_integer p = Some port)"
  by (auto simp: target_port_def parse_integer_Nil split: option.splits)

lemma target_port_cases:
  "target_port t = None \<longleftrightarrow>
     CHR '':'' \<notin> set t \<or>
     (\<exists>h p. t = h @ '':'' @ p \<and> CHR '':'' \<notin> set p \<and> (p = [] \<or> parse_integer p = None))"
  "target_port t = Some port \<longleftrightarrow>
     (\<exists>h p. t = h @ '':'' @ p \<and> CHR '':'' \<notin> set p \<and> parse_integer p = Some port)"
  unfolding target_port_None_iff target_port_Some_iff split_target_iff split_target_None_iff
  by (simp_all only: conj_assoc)

text \<open>
  C7. For a CONNECT request the filter has one of three outcomes, by the case of the
  target: 400 when the target has no colon, or its port segment (what follows the last
  colon) is empty or is not a valid integer; 403 when the port parses and is not in the
  allowed set; the request itself, unchanged, handed on when the port is in the allowed
  set. The outcome is always one of the three, and the three differ.
\<close>

theorem PortAdmissionFilter_outcomes:
  assumes "Method req = MethodConnect"
  shows
   "((CHR '':'' \<notin> set (Host req) \<or>
      (\<exists>h p. Host req = h @ '':'' @ p \<and> CHR '':'' \<notin> set p \<and>
             (p = [] \<or> parse_integer p = None)))
       \<longrightarrow> PortAdmissionFilter allowed req = Reply StatusBadRequest) \<and>
    (\<forall>h p port. Host req = h @ '':'' @ p \<and> CHR '':'' \<notin> set p \<and>
         parse_integer p = Some port \<and> port \<notin> allowed
       \<longrightarrow> PortAdmissionFilter allowed req = Reply StatusForbidden) \<and>
    (\<forall>h p port. Host req = h @ '':'' @ p \<and> CHR '':'' \<notin> set p \<and>
         parse_integer p = Some port \<and> port \<in> allowed
       \<longrightarrow> PortAdmissionFilter allowed req = Next req) \<and>
    (PortAdmissionFilter allowed req = Reply StatusBadRequest \<or>
     PortAdmissionFilter allowed req = Reply StatusForbidden \<or>
     PortAdmissionFilter allowed req = Next req) \<and>
    Reply StatusBadRequest \<noteq> Reply StatusForbidden \<and>
    Reply StatusBadRequest \<noteq> Next req \<and>
    Reply StatusForbidden \<noteq> Next req"
proof -
  let ?out = "PortAdmissionFilter allowed req"
  have bad: "?out = Reply StatusBadRequest" if "target_port (Host req) = None"
    using that assms by (simp add: PortAdmissionFilter_def)
  have good: "?out = (if port \<in> allowed then Next req else Reply StatusForbidden)"
    if "target_port (Host req) = Some port" for port
    using that assms by (simp add: PortAdmissionFilter_def)
  have one: "?out = Reply StatusBadRequest \<or> ?out = Reply StatusForbidden \<or> ?out = Next req"
    using bad good by (cases "target_port (Host req)") auto
  have c400: "?out = Reply StatusBadRequest"
    if "CHR '':'' \<notin> set (Host req) \<or>
      (\<exists>h p. Host req = h @ '':'' @ p \<and> CHR '':'' \<notin> set p \<and>
             (p = [] \<or> parse_integer p = None))"
  proof -
    have "target_port (Host req) = None"
      unfolding target_port_cases(1) by (rule that)
    then show ?thesis by (rule bad)
  qed
  have port: "target_port (Host req) = Some port"
    if "Host req = h @ '':'' @ p \<and> CHR '':'' \<notin> set p \<and> parse_integer p = Some port"
    for h p port
    unfolding target_port_cases(2) by (rule exI [of _ h], rule exI [of _ p], rule that)
  have c403: "?out = Reply StatusForbidden"
    if "Host req = h @ '':'' @ p \<and> CHR '':'' \<notin> set p \<and>
         parse_integer p = Some port \<and> port \<notin> allowed" for h p port
    using that good [of port] port [of h p port] by simp
  have cnext: "?out = Next req"
    if "Host req = h @ '':'' @ p \<and> CHR '':'' \<notin> set p \<and>
         parse_integer p = Some port \<and> port \<in> allowed" for h p port
    using that good [of port] port [of h p port] by simp
  show ?thesis
  proof (intro conjI impI allI)
    show "?out = Reply StatusBadRequest \<or> ?out = Reply StatusForbidden \<or> ?out = Next req"
      by (rule one)
  qed (erule c400, erule c403, erule cnext, simp_all add: Reply_distinct)
qed

lemma example_target_port:
  "target_port ''site.com'' = None"
  "target_port ''site.com:'' = None"
  "target_port ''site.com:abc'' = None"
  "target_port ''site.com:443'' = Some 443"
  "target_port ''site.com:8080'' = Some 8080"
  "target_port ''site.com:8081'' = Some 8081"
  by (simp_all add: target_port_def split_target_def parse_integer_def is_digit_def
      digits_value_def)

text \<open>
  The six requests of \<open>TestFilterTunnelPorts\<close>, with the allowed ports 443 and 8080.
\<close>

theorem PortAdmissionFilter_outcomes_witness:
  "PortAdmissionFilter {443, 8080} (example_request ''CONNECT'' ''site.com'' Map.empty)
     = Reply StatusBadRequest \<and>
   PortAdmissionFilter {443, 8080} (example_request ''CONNECT'' ''site.com:'' Map.empty)
     = Reply StatusBadRequest \<and>
   PortAdmissionFilter {443, 8080} (example_request ''CONNECT'' ''site.com:abc'' Map.empty)
     = Reply StatusBadRequest \<and>
   PortAdmissionFilter {443, 8080} (example_request ''CONNECT'' ''site.com:443'' Map.empty)
     = Next (example_request ''CONNECT'' ''site.com:443'' Map.empty) \<and>
   PortAdmissionFilter {443, 8080} (example_request ''CONNECT'' ''site.com:8080'' Map.empty)
     = Next (example_request ''CONNECT'' ''site.com:8080'' Map.empty) \<and>
   PortAdmissionFilter {443, 8080} (example_request ''CONNECT'' ''site.com:8081'' Map.empty)
     = Reply StatusForbidden"
proof -
  let ?allowed = "{443, 8080} :: int set"
  have m: "Method (example_request ''CONNECT'' t Map.empty) = MethodConnect" for t
    by (simp add: example_request_def MethodConnect_def)
  have p: "parse_integer ''abc'' = None" "parse_integer ''443'' = Some 443"
    "parse_integer ''8080'' = Some 8080" "parse_integer ''8081'' = Some 8081"
    by (simp_all add: parse_integer_def is_digit_def digits_value_def)
  have no_colon: "CHR '':'' \<notin> set (Host (example_request ''CONNECT'' ''site.com'' Map.empty))"
    by (simp add: example_host)
  have empty_port: "Host (example_request ''CONNECT'' ''site.com:'' Map.empty)
      = ''site.com'' @ '':'' @ [] \<and> CHR '':'' \<notin> set [] \<and> ([] = [] \<or> parse_integer [] = None)"
    by (simp add: example_host)
  have not_integer: "Host (example_request ''CONNECT'' ''site.com:abc'' Map.empty)
      = ''site.com'' @ '':'' @ ''abc'' \<and> CHR '':'' \<notin> set ''abc'' \<and>
        (''abc'' = [] \<or> parse_integer ''abc'' = None)"
    by (simp add: example_host p)
  have p443: "Host (example_request ''CONNECT'' ''site.com:443'' Map.empty)
      = ''site.com'' @ '':'' @ ''443'' \<and> CHR '':'' \<notin> set ''443'' \<and>
        parse_integer ''443'' = Some 443 \<and> 443 \<in> ?allowed"
    by (simp add: example_host p)
  have p8080: "Host (example_request ''CONNECT'' ''site.com:8080'' Map.empty)
      = ''site.com'' @ '':'' @ ''8080'' \<and> CHR '':'' \<notin> set ''8080'' \<and>
        parse_integer ''8080'' = Some 8080 \<and> 8080 \<in> ?allowed"
    by (simp add: example_host p)
  have p8081: "Host (example_request ''CONNECT'' ''site.com:8081'' Map.empty)
      = ''site.com'' @ '':'' @ ''8081'' \<and> CHR '':'' \<notin> set ''8081'' \<and>
        parse_integer ''8081'' = Some 8081 \<and> 8081 \<notin> ?allowed"
    by (simp add: example_host p)
  have "PortAdmissionFilter ?allowed (example_request ''CONNECT'' ''site.com'' Map.empty)
     = Reply StatusBadRequest"
    using PortAdmissionFilter_outcomes [OF m, of "''site.com''" ?allowed] no_colon by blast
  moreover have "PortAdmissionFilter ?allowed (example_request ''CONNECT'' ''site.com:'' Map.empty)
     = Reply StatusBadRequest"
    using PortAdmissionFilter_outcomes [OF m, of "''site.com:''" ?allowed] empty_port by blast
  moreover have "PortAdmissionFilter ?allowed (example_request ''CONNECT'' ''site.com:abc'' Map.empty)
     = Reply StatusBadRequest"
    using PortAdmissionFilter_outcomes [OF m, of "''site.com:abc''" ?allowed] not_integer by blast
  moreover have "PortAdmissionFilter ?allowed (example_request ''CONNECT'' ''site.com:443'' Map.empty)
     = Next (example_request ''CONNECT'' ''site.com:443'' Map.empty)"
    using PortAdmissionFilter_outcomes [OF m, of "''site.com:443''" ?allowed] p443 by blast
  moreover have "PortAdmissionFilter ?allowed (example_request ''CONNECT'' ''site.com:8080'' Map.empty)
     = Next (example_request ''CONNECT'' ''site.com:8080'' Map.empty)"
    using PortAdmissionFilter_outcomes [OF m, of "''site.com:8080''" ?allowed] p8080 by blast
  moreover have "PortAdmissionFilter ?allowed (example_request ''CONNECT'' ''site.com:8081'' Map.empty)
     = Reply StatusForbidden"
    using PortAdmissionFilter_outcomes [OF m, of "''site.com:8081''" ?allowed] p8081 by blast
  ultimately show ?thesis by simp
qed

section \<open>The end of the month\<close>

lemma daysIn_ge: "1 \<le> daysIn y m"
  by (simp add: daysIn_def)

lemma nextDay_valid: "valid_civil c \<Longrightarrow> valid_civil (nextDay c)"
  by (auto simp: valid_civil_def nextDay_def daysIn_def)

lemma prevDay_valid: "valid_civil c \<Longrightarrow> valid_civil (prevDay c)"
  by (auto simp: valid_civil_def prevDay_def daysIn_def)

lemma prevDay_nextDay: "valid_civil c \<Longrightarrow> prevDay (nextDay c) = c"
  by (auto simp: valid_civil_def nextDay_def prevDay_def daysIn_def)

lemma nextDay_prevDay: "valid_civil c \<Longrightarrow> nextDay (prevDay c) = c"
  by (auto simp: valid_civil_def nextDay_def prevDay_def daysIn_def)


lemma funpow_nextDay_valid: "valid_civil c \<Longrightarrow> valid_civil ((nextDay ^^ n) c)"
  by (induction n) (simp_all add: nextDay_valid)

lemma funpow_prevDay_valid: "valid_civil c \<Longrightarrow> valid_civil ((prevDay ^^ n) c)"
  by (induction n) (simp_all add: prevDay_valid)

lemma addDays_valid: "valid_civil c \<Longrightarrow> valid_civil (addDays k c)"
  by (simp add: addDays_def funpow_nextDay_valid funpow_prevDay_valid)

lemma addDays_0: "addDays 0 c = c"
  by (simp add: addDays_def)

lemma addDays_Suc:
  assumes "valid_civil c"
  shows "addDays (k + 1) c = nextDay (addDays k c)"
proof (cases "0 \<le> k")
  case True
  then have "nat (k + 1) = Suc (nat k)" by simp
  with True show ?thesis
    by (simp add: addDays_def)
next
  case False
  then obtain n where n: "nat (- k) = Suc n" and k1: "nat (- (k + 1)) = n"
    by (cases "nat (- k)") auto
  have v: "valid_civil ((prevDay ^^ n) c)"
    using assms by (rule funpow_prevDay_valid)
  have "nextDay (addDays k c) = nextDay (prevDay ((prevDay ^^ n) c))"
    using False n by (simp add: addDays_def)
  also have "\<dots> = (prevDay ^^ n) c"
    using v by (rule nextDay_prevDay)
  also have "\<dots> = addDays (k + 1) c"
  proof (cases "k + 1 = 0")
    case True
    with k1 show ?thesis by (simp add: addDays_def)
  next
    case False
    with \<open>\<not> 0 \<le> k\<close> have "\<not> 0 \<le> k + 1" by simp
    with k1 show ?thesis by (simp add: addDays_def)
  qed
  finally show ?thesis by simp
qed

lemma addDays_pred:
  assumes "valid_civil c"
  shows "addDays (k - 1) c = prevDay (addDays k c)"
proof -
  have "addDays k c = nextDay (addDays (k - 1) c)"
    using addDays_Suc [OF assms, of "k - 1"] by simp
  then have "prevDay (addDays k c) = prevDay (nextDay (addDays (k - 1) c))"
    by simp
  also have "\<dots> = addDays (k - 1) c"
    using addDays_valid [OF assms] by (rule prevDay_nextDay)
  finally show ?thesis by simp
qed

lemma addDays_add:
  assumes "valid_civil c"
  shows "addDays a (addDays b c) = addDays (a + b) c"
proof (induction a rule: int_induct [where k = 0])
  case base
  show ?case by (simp add: addDays_0)
next
  case (step1 i)
  have "addDays (i + 1) (addDays b c) = nextDay (addDays i (addDays b c))"
    using addDays_valid [OF assms] by (rule addDays_Suc)
  also have "\<dots> = nextDay (addDays (i + b) c)"
    using step1 by simp
  also have "\<dots> = addDays (i + b + 1) c"
    using addDays_Suc [OF assms, of "i + b"] by simp
  finally show ?case by (simp add: add.assoc add.commute [of b 1])
next
  case (step2 i)
  have "addDays (i - 1) (addDays b c) = prevDay (addDays i (addDays b c))"
    using addDays_valid [OF assms] by (rule addDays_pred)
  also have "\<dots> = prevDay (addDays (i + b) c)"
    using step2 by simp
  also have "\<dots> = addDays (i + b - 1) c"
    using addDays_pred [OF assms, of "i + b"] by simp
  also have "i + b - 1 = i - 1 + b" by simp
  finally show ?case .
qed

lemma nextDay_nsec: "nextDay (c\<lparr>nsec := v\<rparr>) = (nextDay c)\<lparr>nsec := v\<rparr>"
  by (simp add: nextDay_def)

lemma prevDay_nsec: "prevDay (c\<lparr>nsec := v\<rparr>) = (prevDay c)\<lparr>nsec := v\<rparr>"
  by (simp add: prevDay_def)

lemma addDays_nsec: "addDays k (c\<lparr>nsec := v\<rparr>) = (addDays k c)\<lparr>nsec := v\<rparr>"
proof -
  have "(nextDay ^^ n) (c\<lparr>nsec := v\<rparr>) = ((nextDay ^^ n) c)\<lparr>nsec := v\<rparr>" for n
    by (induction n) (simp_all add: nextDay_nsec)
  moreover have "(prevDay ^^ n) (c\<lparr>nsec := v\<rparr>) = ((prevDay ^^ n) c)\<lparr>nsec := v\<rparr>" for n
    by (induction n) (simp_all add: prevDay_nsec)
  ultimately show ?thesis
    by (simp add: addDays_def)
qed

lemma nsec_addDays: "nsec (addDays k c) = nsec c"
proof -
  have "nsec ((nextDay ^^ n) c) = nsec c" for n
    by (induction n) (simp_all add: nextDay_def)
  moreover have "nsec ((prevDay ^^ n) c) = nsec c" for n
    by (induction n) (simp_all add: prevDay_def)
  ultimately show ?thesis
    by (simp add: addDays_def)
qed


lemma nsPerDay_pos: "0 < nsPerDay"
  by (simp add: nsPerDay_def)

lemma plus_ns_eq: "plus_ns c d = (addDays ((nsec c + d) div nsPerDay) c)\<lparr>nsec := (nsec c + d) mod nsPerDay\<rparr>"
  by (simp add: plus_ns_def Let_def addDays_nsec)



lemma plus_ns_add:
  assumes "valid_civil c"
  shows "plus_ns (plus_ns c a) b = plus_ns c (a + b)"
proof -
  let ?D = nsPerDay
  let ?n = "nsec c + a"
  have "nsec c + (a + b) = (?n mod ?D + b) + (?n div ?D) * ?D"
    by (simp add: algebra_simps)
  then have "(nsec c + (a + b)) div ?D = ((?n mod ?D + b) + (?n div ?D) * ?D) div ?D"
    by (simp only:)
  also have "\<dots> = ?n div ?D + (?n mod ?D + b) div ?D"
    using nsPerDay_pos by (intro div_mult_self1) simp
  finally have d: "(?n mod ?D + b) div ?D + ?n div ?D = (nsec c + (a + b)) div ?D"
    by simp
  have m: "(?n mod ?D + b) mod ?D = (nsec c + (a + b)) mod ?D"
    by (simp add: mod_add_left_eq add.assoc)
  have "plus_ns (plus_ns c a) b =
      (addDays ((?n mod ?D + b) div ?D) ((addDays (?n div ?D) c)\<lparr>nsec := ?n mod ?D\<rparr>))
        \<lparr>nsec := (?n mod ?D + b) mod ?D\<rparr>"
    by (simp add: plus_ns_eq)
  also have "\<dots> = (addDays ((?n mod ?D + b) div ?D) (addDays (?n div ?D) c))
        \<lparr>nsec := (?n mod ?D + b) mod ?D\<rparr>"
    by (simp add: addDays_nsec)
  also have "\<dots> = (addDays ((nsec c + (a + b)) div ?D) c)\<lparr>nsec := (nsec c + (a + b)) mod ?D\<rparr>"
    using addDays_add [OF assms] d m by simp
  finally show ?thesis
    by (simp add: plus_ns_eq)
qed

lemma plus_ns_0: "valid_civil c \<Longrightarrow> plus_ns c 0 = c"
  by (simp add: plus_ns_eq valid_civil_def addDays_0)



lemma first_of_month:
  assumes "1 \<le> m" and "m \<le> 12"
  shows "plus_ns \<lparr>year = y + (m - 1) div 12, month = (m - 1) mod 12 + 1, day = 1, nsec = 0\<rparr> 0
           = \<lparr>year = y, month = m, day = 1, nsec = 0\<rparr>"
proof -
  from assms have "(m - 1) div 12 = 0" and "(m - 1) mod 12 = m - 1"
    by simp_all
  then show ?thesis
    by (simp add: plus_ns_eq addDays_0)
qed

lemma first_of_month_valid:
  "1 \<le> m \<Longrightarrow> m \<le> 12 \<Longrightarrow> valid_civil \<lparr>year = y, month = m, day = 1, nsec = 0\<rparr>"
  by (simp add: valid_civil_def daysIn_ge nsPerDay_pos)

lemma Date_first:
  assumes "1 \<le> m" and "m \<le> 12"
  shows "Date y m 1 0 0 0 0 l =
           \<lparr>utc = plus_ns \<lparr>year = y, month = m, day = 1, nsec = 0\<rparr>
                   (- Date_offset l \<lparr>year = y, month = m, day = 1, nsec = 0\<rparr> * Second),
            Location = l\<rparr>"
  using first_of_month [OF assms, of y]
  by (simp add: Date_def Let_def)








lemma fixed_offset_steady:
  assumes "lookup l = (\<lambda>t. (k, None, None))" and "1 \<le> m" and "m \<le> 12"
  shows "wall_clock (Date y m 1 0 0 0 0 l) = \<lparr>year = y, month = m, day = 1, nsec = 0\<rparr>"
    and "offset_at (Add (Date y m 1 0 0 0 0 l) (- Nanosecond)) = offset_at (Date y m 1 0 0 0 0 l)"
proof -
  let ?w = "\<lparr>year = y, month = m, day = 1, nsec = 0\<rparr>"
  have wv: "valid_civil ?w"
    using assms(2,3) by (rule first_of_month_valid)
  have k: "Date_offset l ?w = k"
    using assms(1) by (simp add: Date_offset_def Let_def)
  have d: "Date y m 1 0 0 0 0 l = \<lparr>utc = plus_ns ?w (- k * Second), Location = l\<rparr>"
    using Date_first [OF assms(2,3), of y l] k by simp
  show "wall_clock (Date y m 1 0 0 0 0 l) = ?w"
    using wv assms(1) by (simp add: d wall_clock_def offset_at_def plus_ns_add plus_ns_0)
  show "offset_at (Add (Date y m 1 0 0 0 0 l) (- Nanosecond)) = offset_at (Date y m 1 0 0 0 0 l)"
    using assms(1) by (simp add: d offset_at_def Add_def)
qed









section \<open>The flush\<close>

lemma clientKey_inj: "clientKey a = clientKey b \<longleftrightarrow> a = b"
  by (simp add: clientKey_def)

lemma multi_Exec_ok:
  assumes "exec_error r (clientKey deviceID) = None"
  shows "\<exists>bytesIn bytesOut r'. multi_Exec r deviceID sts e = (None, bytesIn, bytesOut, r') \<and>
           execs r' = execs r @ [clientKey deviceID] \<and>
           exec_error r' = exec_error r \<and>
           expireAt r' = (expireAt r)(clientKey deviceID \<mapsto> Unix e) \<and>
           (\<forall>k. k \<noteq> clientKey deviceID \<longrightarrow> hashes r' k = hashes r k)"
  using assms by (simp add: multi_Exec_def Let_def)

lemma multi_Exec_fails:
  assumes "exec_error r (clientKey deviceID) = Some err"
  shows "multi_Exec r deviceID sts e = (Some err, 0, 0, r\<lparr>execs := execs r @ [clientKey deviceID]\<rparr>)"
  using assms by (simp add: multi_Exec_def Let_def)

text \<open>
  A pass over entries whose first failing device is \<open>d\<close>: the devices before \<open>d\<close> are
  written, the pass returns the error of \<open>d\<close>, and nothing after \<open>d\<close> is touched.
\<close>

lemma submit_range_aborts:
  assumes "\<forall>k \<in> set (map fst pre). exec_error (rc b) (clientKey k) = None"
    and "exec_error (rc b) (clientKey d) = Some err"
  shows "\<exists>b'. submit_range now e (pre @ (d, s) # post) b = (Some err, b') \<and>
           execs (rc b') = execs (rc b) @ map clientKey (map fst pre @ [d]) \<and>
           (\<forall>k. k \<notin> set (map fst pre) \<longrightarrow>
              hashes (rc b') (clientKey k) = hashes (rc b) (clientKey k) \<and>
              expireAt (rc b') (clientKey k) = expireAt (rc b) (clientKey k) \<and>
              usage b' k = usage b k)"
  using assms
proof (induction pre arbitrary: b)
  case Nil
  then show ?case
    by (simp add: multi_Exec_fails)
next
  case (Cons x pre)
  obtain k0 s0 where x: "x = (k0, s0)" by (cases x)
  from Cons.prems(1) x have ok: "exec_error (rc b) (clientKey k0) = None"
    by simp
  from multi_Exec_ok [OF ok, of s0 e] obtain bytesIn bytesOut r'
    where ex: "multi_Exec (rc b) k0 s0 e = (None, bytesIn, bytesOut, r')"
      and r': "execs r' = execs (rc b) @ [clientKey k0]" "exec_error r' = exec_error (rc b)"
        "expireAt r' = (expireAt (rc b))(clientKey k0 \<mapsto> Unix e)"
        "\<forall>k. k \<noteq> clientKey k0 \<longrightarrow> hashes r' k = hashes (rc b) k"
    by blast
  define b1 where "b1 = b\<lparr>rc := r',
      usage := (usage b)(k0 \<mapsto> ((word_of_int bytesIn + word_of_int bytesOut :: 64 word), now))\<rparr>"
  have step: "submit_range now e ((x # pre) @ (d, s) # post) b
      = submit_range now e (pre @ (d, s) # post) b1"
    by (simp add: x ex b1_def)
  have p1: "\<forall>k \<in> set (map fst pre). exec_error (rc b1) (clientKey k) = None"
    and p2: "exec_error (rc b1) (clientKey d) = Some err"
    using Cons.prems r'(2) by (simp_all add: b1_def)
  from Cons.IH [OF p1 p2] obtain b' where
    res: "submit_range now e (pre @ (d, s) # post) b1 = (Some err, b')"
    and ex': "execs (rc b') = execs (rc b1) @ map clientKey (map fst pre @ [d])"
    and un: "\<forall>k. k \<notin> set (map fst pre) \<longrightarrow>
              hashes (rc b') (clientKey k) = hashes (rc b1) (clientKey k) \<and>
              expireAt (rc b') (clientKey k) = expireAt (rc b1) (clientKey k) \<and>
              usage b' k = usage b1 k"
    by blast
  have "execs (rc b') = execs (rc b) @ map clientKey (map fst (x # pre) @ [d])"
    using ex' r'(1) by (simp add: b1_def x)
  moreover have "\<forall>k. k \<notin> set (map fst (x # pre)) \<longrightarrow>
              hashes (rc b') (clientKey k) = hashes (rc b) (clientKey k) \<and>
              expireAt (rc b') (clientKey k) = expireAt (rc b) (clientKey k) \<and>
              usage b' k = usage b k"
    using un r'(3,4) by (simp add: b1_def x clientKey_inj)
  ultimately show ?case
    using step res by simp
qed




lemma range_entries_dom:
  assumes "set order \<subseteq> dom m"
  shows "map fst (range_entries m order) = order"
  using assms
  by (induction order) (auto simp: range_entries_def List.map_filter_simps)

lemma range_entries_append:
  "range_entries m (xs @ ys) = range_entries m xs @ range_entries m ys"
  by (simp add: range_entries_def List.map_filter_def)

lemma range_entries_Cons:
  assumes "m d = Some s"
  shows "range_entries m (d # ds) = (d, s) # range_entries m ds"
  using assms by (simp add: range_entries_def List.map_filter_simps)

lemma Tick_resets:
  "\<exists>st'. reportPeriodically_step st (Tick now order) = Inr st' \<and>
          statsByDeviceID st' = Map.empty"
  by (cases "submit (store st) now (range_entries (statsByDeviceID st) order)")
     (auto split: option.splits)

text \<open>
  C3. A tick at which the write for device \<open>d\<close> is the first that fails (the devices
  \<open>before\<close> are written, \<open>after\<close> are the devices that \<open>range\<close> would visit later):
  the pass issues the transactions of \<open>before\<close> and of \<open>d\<close> and no other, so no device
  of \<open>after\<close> is attempted; the error is logged; the map is empty afterwards, as it is
  after every tick; and for every device of \<open>after\<close> the stored counters, the expiry and
  the reported usage are what they were, so its deltas are lost.
\<close>

theorem flush_aborts_on_first_error:
  assumes "order = before @ d # after"
    and "distinct order"
    and "set order = dom (statsByDeviceID st)"
    and "\<forall>k \<in> set before. exec_error (rc (store st)) (clientKey k) = None"
    and "exec_error (rc (store st)) (clientKey d) = Some err"
  shows "\<exists>st'. reportPeriodically_step st (Tick now order) = Inr st' \<and>
           statsByDeviceID st' = Map.empty \<and>
           reported st' = reported st @ [Error (''Unable to submit stats: '' @ err)] \<and>
           execs (rc (store st')) = execs (rc (store st)) @ map clientKey (before @ [d]) \<and>
           (\<forall>k \<in> set after.
              clientKey k \<notin> set (map clientKey (before @ [d])) \<and>
              hashes (rc (store st')) (clientKey k) = hashes (rc (store st)) (clientKey k) \<and>
              expireAt (rc (store st')) (clientKey k) = expireAt (rc (store st)) (clientKey k) \<and>
              usage (store st') k = usage (store st) k) \<and>
           (\<forall>now' order'. \<exists>st''. reportPeriodically_step st (Tick now' order') = Inr st'' \<and>
              statsByDeviceID st'' = Map.empty)"
proof -
  let ?m = "statsByDeviceID st"
  from assms(1,3) obtain s where s: "?m d = Some s"
    by auto
  have sub: "set before \<subseteq> dom ?m" "set after \<subseteq> dom ?m"
    using assms(1,3) by auto
  have entries: "range_entries ?m order = range_entries ?m before @ (d, s) # range_entries ?m after"
    using assms(1) s by (simp add: range_entries_append range_entries_Cons)
  have keys: "map fst (range_entries ?m before) = before"
    using sub(1) by (rule range_entries_dom)
  have ok: "\<forall>k \<in> set (map fst (range_entries ?m before)).
      exec_error (rc (store st)) (clientKey k) = None"
    using assms(4) keys by simp
  from submit_range_aborts [OF ok assms(5), of now "endOfThisMonth now" s "range_entries ?m after"]
  obtain b' where
    res: "submit (store st) now (range_entries ?m order) = (Some err, b')"
    and ex: "execs (rc b') = execs (rc (store st)) @ map clientKey (before @ [d])"
    and un: "\<forall>k. k \<notin> set before \<longrightarrow>
              hashes (rc b') (clientKey k) = hashes (rc (store st)) (clientKey k) \<and>
              expireAt (rc b') (clientKey k) = expireAt (rc (store st)) (clientKey k) \<and>
              usage b' k = usage (store st) k"
    unfolding submit_def entries keys by blast
  define st' where "st' = st\<lparr>statsByDeviceID := Map.empty, store := b',
      reported := reported st @ [Error (''Unable to submit stats: '' @ err)]\<rparr>"
  have step: "reportPeriodically_step st (Tick now order) = Inr st'"
    using res by (simp add: st'_def)
  have later: "k \<notin> set before \<and> k \<noteq> d" if "k \<in> set after" for k
    using that assms(1,2) by auto
  have "\<forall>k \<in> set after.
              clientKey k \<notin> set (map clientKey (before @ [d])) \<and>
              hashes (rc (store st')) (clientKey k) = hashes (rc (store st)) (clientKey k) \<and>
              expireAt (rc (store st')) (clientKey k) = expireAt (rc (store st)) (clientKey k) \<and>
              usage (store st') k = usage (store st) k"
    using later un by (auto simp: st'_def clientKey_inj)
  moreover have "statsByDeviceID st' = Map.empty"
    and "reported st' = reported st @ [Error (''Unable to submit stats: '' @ err)]"
    and "execs (rc (store st')) = execs (rc (store st)) @ map clientKey (before @ [d])"
    using ex by (simp_all add: st'_def)
  ultimately show ?thesis
    using step Tick_resets by blast
qed

lemma example_reporter_simps:
  "statsByDeviceID example_reporter ''b'' = Some \<lparr>SentTotal = 1, RecvTotal = 2\<rparr>"
  "dom (statsByDeviceID example_reporter) = {''a'', ''b'', ''c''}"
  "exec_error (rc (store example_reporter)) (clientKey ''a'') = None"
  "exec_error (rc (store example_reporter)) (clientKey ''b'') = Some ''connection refused''"
  "execs (rc (store example_reporter)) = []"
  "reported example_reporter = []"
  "expireAt (rc (store example_reporter)) = Map.empty"
  "usage (store example_reporter) = Map.empty"
  by (auto simp: example_reporter_def clientKey_def)

text \<open>
  The example reporter, with \<open>range\<close> visiting a, b, c: the transactions of a and b are
  issued, c is not attempted and keeps no expiry and no reported usage, the error is
  logged, and the map is empty.
\<close>

theorem flush_aborts_on_first_error_witness:
  "\<exists>st'. reportPeriodically_step example_reporter (Tick example_now [''a'', ''b'', ''c'']) = Inr st' \<and>
         statsByDeviceID st' = Map.empty \<and>
         reported st' = [Error ''Unable to submit stats: connection refused''] \<and>
         execs (rc (store st')) = [''_client:a'', ''_client:b''] \<and>
         hashes (rc (store st')) ''_client:c'' = hashes (rc (store example_reporter)) ''_client:c'' \<and>
         expireAt (rc (store st')) ''_client:c'' = None \<and>
         usage (store st') ''c'' = None"
proof -
  have o: "[''a'', ''b'', ''c''] = [''a''] @ ''b'' # [''c'']" by simp
  have d: "distinct [''a'', ''b'', ''c'']" by simp
  have m: "set [''a'', ''b'', ''c''] = dom (statsByDeviceID example_reporter)"
    by (auto simp: example_reporter_simps)
  have ok: "\<forall>k \<in> set [''a'']. exec_error (rc (store example_reporter)) (clientKey k) = None"
    by (simp add: example_reporter_simps)
  have bad: "exec_error (rc (store example_reporter)) (clientKey ''b'') = Some ''connection refused''"
    by (simp add: example_reporter_simps)
  from flush_aborts_on_first_error [OF o d m ok bad, of example_now]
  show ?thesis
    by (auto simp: example_reporter_simps clientKey_def)
qed





end
